theory Spec2Isabelle
  imports Main "HOL-Library.AList"
begin

section \<open>JavaScript values\<close>

text \<open>
  Request bodies, webhook payloads, registry entries and reply bodies are JSON values.
  \<open>JUndefined\<close> is the value of a missing property. Numbers are integers here: no
  handler of the server computes with fractions. An object is the association list of
  its properties after parsing (each key at most once). Strings are lists of characters;
  case conversion acts on the ASCII letters and leaves every other character alone.
\<close>

datatype json =
    JUndefined
  | JNull
  | JBool bool
  | JNum int
  | JStr string
  | JArr "json list"
  | JObj "(string \<times> json) list"

datatype js_error = TypeError

text \<open>Truthiness, as \<open>if (x)\<close>, \<open>!x\<close>, \<open>x || y\<close> and \<open>x && y\<close> test it.\<close>

fun truthy :: "json \<Rightarrow> bool" where
  "truthy JUndefined = False"
| "truthy JNull = False"
| "truthy (JBool b) = b"
| "truthy (JNum n) = (n \<noteq> 0)"
| "truthy (JStr s) = (s \<noteq> [])"
| "truthy (JArr xs) = True"
| "truthy (JObj kvs) = True"

text \<open>\<open>a || b\<close>: the first operand when it is truthy, the second otherwise.\<close>

definition jor :: "json \<Rightarrow> json \<Rightarrow> json" where
  "jor a b = (if truthy a then a else b)"

text \<open>
  \<open>a?.name\<close> for the property names the server reads: the property of an object,
  \<open>undefined\<close> on \<open>null\<close>, \<open>undefined\<close> and on a primitive or an array (none of the
  names read is a built-in property of those).
\<close>

fun jget :: "json \<Rightarrow> string \<Rightarrow> json" where
  "jget (JObj kvs) name = (case map_of kvs name of Some v \<Rightarrow> v | None \<Rightarrow> JUndefined)"
| "jget v name = JUndefined"

definition lower_char :: "char \<Rightarrow> char" where
  "lower_char c =
     (case map_of (zip ''ABCDEFGHIJKLMNOPQRSTUVWXYZ'' ''abcdefghijklmnopqrstuvwxyz'') c of
        Some d \<Rightarrow> d
      | None \<Rightarrow> c)"

definition upper_char :: "char \<Rightarrow> char" where
  "upper_char c =
     (case map_of (zip ''abcdefghijklmnopqrstuvwxyz'' ''ABCDEFGHIJKLMNOPQRSTUVWXYZ'') c of
        Some d \<Rightarrow> d
      | None \<Rightarrow> c)"

definition toLowerCase :: "string \<Rightarrow> string" where
  "toLowerCase s = map lower_char s"

definition toUpperCase :: "string \<Rightarrow> string" where
  "toUpperCase s = map upper_char s"

text \<open>
  \<open>v?.toLowerCase()\<close>: \<open>undefined\<close> when \<open>v\<close> is \<open>null\<close> or \<open>undefined\<close>, the
  lower-cased string when \<open>v\<close> is a string, and a TypeError on every other value (which
  has no such method).
\<close>

fun opt_toLowerCase :: "json \<Rightarrow> js_error + json" where
  "opt_toLowerCase JUndefined = Inr JUndefined"
| "opt_toLowerCase JNull = Inr JUndefined"
| "opt_toLowerCase (JStr s) = Inr (JStr (toLowerCase s))"
| "opt_toLowerCase v = Inl TypeError"

text \<open>\<open>v.toUpperCase()\<close> and \<open>v.toLowerCase()\<close> on a value already known to be truthy.\<close>

fun call_toUpperCase :: "json \<Rightarrow> js_error + json" where
  "call_toUpperCase (JStr s) = Inr (JStr (toUpperCase s))"
| "call_toUpperCase v = Inl TypeError"

fun call_toLowerCase :: "json \<Rightarrow> js_error + json" where
  "call_toLowerCase (JStr s) = Inr (JStr (toLowerCase s))"
| "call_toLowerCase v = Inl TypeError"

section \<open>Gateway adapter: callback normalisation\<close>

text \<open>
  \<open>transformSwiftWalletCallbackToPayHero\<close> exists twice. Both build the same object;
  they differ in the test that decides \<open>response.Status\<close>. The field
  \<open>TransactionDate\<close> (the provider's date or the current time) is not part of the
  embedding; nothing reads it.
\<close>

definition payHeroCallback :: "json \<Rightarrow> string \<Rightarrow> json" where
  "payHeroCallback swiftCallback st =
     JObj [
       (''response'', JObj [
          (''Status'', JStr st),
          (''Amount'', jor (jget (jget swiftCallback ''result'') ''Amount'')
                          (jor (jget swiftCallback ''amount'') (JNum 5))),
          (''Phone'', jor (jget (jget swiftCallback ''result'') ''Phone'') (JStr [])),
          (''ExternalReference'', jget swiftCallback ''external_reference''),
          (''MpesaReceiptNumber'',
              jor (jget (jget swiftCallback ''result'') ''MpesaReceiptNumber'') (JStr [])),
          (''ResultCode'', jor (jget (jget swiftCallback ''result'') ''ResultCode'')
                              (if jget swiftCallback ''success'' = JBool True
                               then JNum 0 else JNum 1)),
          (''ResultDesc'', jor (jget (jget swiftCallback ''result'') ''ResultDesc'')
                              (jor (jget swiftCallback ''message'')
                                   (JStr ''Transaction processed'')))]),
       (''external_reference'', jget swiftCallback ''external_reference''),
       (''reference'', jget swiftCallback ''external_reference'')]"

text \<open>
  The polling server (app.js, SwiftWallet):
  \<^verbatim>\<open>Status: swiftCallback?.success === true && (swiftCallback?.status === 'completed'
      || swiftCallback?.status === 'COMPLETED') ? 'Success' : 'Failed'\<close>
\<close>

definition polling_Status :: "json \<Rightarrow> string" where
  "polling_Status swiftCallback =
     (if jget swiftCallback ''success'' = JBool True
         \<and> (jget swiftCallback ''status'' = JStr ''completed''
              \<or> jget swiftCallback ''status'' = JStr ''COMPLETED'')
      then ''Success'' else ''Failed'')"

definition polling_transformSwiftWalletCallbackToPayHero :: "json \<Rightarrow> json" where
  "polling_transformSwiftWalletCallbackToPayHero swiftCallback =
     payHeroCallback swiftCallback (polling_Status swiftCallback)"

text \<open>
  The relay server (dual gateway):
  \<^verbatim>\<open>Status: swiftCallback?.success === true
      && (swiftCallback?.status?.toLowerCase() === 'completed'
          || swiftCallback?.status?.toLowerCase() === 'completed') ? 'Success' : 'Failed'\<close>
  \<open>&&\<close> evaluates its right operand only when the left one holds, so the method call,
  and its TypeError on a status that is neither a string nor missing, happens only
  when \<open>success\<close> is \<open>true\<close>.
\<close>

definition relay_Status :: "json \<Rightarrow> js_error + string" where
  "relay_Status swiftCallback =
     (if jget swiftCallback ''success'' = JBool True
      then (case opt_toLowerCase (jget swiftCallback ''status'') of
              Inl e \<Rightarrow> Inl e
            | Inr l \<Rightarrow> Inr (if l = JStr ''completed'' then ''Success'' else ''Failed''))
      else Inr ''Failed'')"

definition relay_transformSwiftWalletCallbackToPayHero :: "json \<Rightarrow> js_error + json" where
  "relay_transformSwiftWalletCallbackToPayHero swiftCallback =
     (case relay_Status swiftCallback of
        Inl e \<Rightarrow> Inl e
      | Inr st \<Rightarrow> Inr (payHeroCallback swiftCallback st))"

section \<open>Reference generator\<close>

text \<open>
  \<^verbatim>\<open>const timestamp = Date.now().toString().slice(-4);
  const uniqueRef = reference.replace(/[^a-zA-Z0-9]/g, '').substring(0, 4) + timestamp;\<close>
  \<open>Date.now()\<close> is a natural number of milliseconds, \<open>toString\<close> its decimal
  numeral, \<open>slice(-4)\<close> the last four characters (all of them when there are fewer).
\<close>

definition isAlnum :: "char \<Rightarrow> bool" where
  "isAlnum c \<longleftrightarrow>
     c \<in> set ''abcdefghijklmnopqrstuvwxyzABCDEFGHIJKLMNOPQRSTUVWXYZ0123456789''"

definition digit_char :: "nat \<Rightarrow> char" where
  "digit_char d = ''0123456789'' ! d"

function toString :: "nat \<Rightarrow> string" where
  "toString n = (if n < 10 then [digit_char n] else toString (n div 10) @ [digit_char (n mod 10)])"
  by pat_completeness auto
termination
  by (relation "measure id") auto

declare toString.simps [simp del]

definition slice_last :: "nat \<Rightarrow> string \<Rightarrow> string" where
  "slice_last k s = drop (length s - k) s"

definition uniqueRef_of :: "string \<Rightarrow> nat \<Rightarrow> string" where
  "uniqueRef_of reference now =
     take 4 (filter isAlnum reference) @ slice_last 4 (toString now)"

section \<open>Initiation: the retry loop\<close>

text \<open>
  \<open>axios.post\<close> resolves with a response (status and body) on a 2xx answer and throws
  otherwise: an error that carries the provider's response when the provider answered
  with another status, and none when the network failed or the 30 s timeout passed.
\<close>

datatype axios_error = AxiosError (err_message: string) (err_response: "(nat \<times> json) option")

datatype axios_result = Resolved nat json | Thrown axios_error

datatype io = Post nat | Sleep nat

datatype loop_result = Broke nat json | Threw axios_error | Exhausted

text \<open>
  \<^verbatim>\<open>for (let attempt = 1; attempt <= 3; attempt++) {
    try { response = await axios.post(...); break; }
    catch (error) {
      if (attempt < 3) { await new Promise(resolve => setTimeout(resolve, 2000)); }
      else { throw error; }
    }
  }\<close>
  \<open>post n\<close> is what the \<open>n\<close>-th call does. The function returns how the loop ends and
  the calls and waits it made, in order. \<open>Exhausted\<close> is the exit through the loop
  condition, which leaves \<open>response\<close> undefined.
\<close>

function retry_loop :: "(nat \<Rightarrow> axios_result) \<Rightarrow> nat \<Rightarrow> io list \<Rightarrow> loop_result \<times> io list" where
  "retry_loop post attempt trace =
     (if attempt \<le> 3 then
        (case post attempt of
           Resolved code body \<Rightarrow> (Broke code body, trace @ [Post attempt])
         | Thrown error \<Rightarrow>
             if attempt < 3
             then retry_loop post (attempt + 1) (trace @ [Post attempt, Sleep 2000])
             else (Threw error, trace @ [Post attempt]))
      else (Exhausted, trace))"
  by pat_completeness auto
termination
  by (relation "measure (\<lambda>(post, attempt, trace). 4 - attempt)") auto

declare retry_loop.simps [simp del]

fun is_Post :: "io \<Rightarrow> bool" where
  "is_Post (Post n) = True"
| "is_Post (Sleep ms) = False"

definition posts :: "io list \<Rightarrow> nat" where
  "posts trace = length (filter is_Post trace)"

section \<open>The relay server: state\<close>

text \<open>
  The dual-gateway server keeps the caller's connection open. \<open>/api/pay\<close> builds one
  \<open>paymentRequest\<close> object and stores it in the map \<open>transactionStatuses\<close> under the
  generated reference; the callback handler and the timer reach the object through the
  map, the continuation of \<open>/api/pay\<close> through its own variable. The object is
  therefore shared: the map holds an address, the heap holds the object. The response
  object \<open>res\<close> of the held request lives in the object (\<open>res: res\<close>); its value here
  is the list of bodies passed to \<open>res.json\<close> so far, in order. Express sends the first
  and raises \<open>ERR_HTTP_HEADERS_SENT\<close> on every later one.

  \<open>providerResponse\<close> stands for \<open>payheroResponse\<close> or \<open>swiftResponse\<close>, whichever the
  gateway sets. \<open>Number(amount)\<close> is not applied: the amount is carried as it came.
  Clock readings that only fill reply or log fields (\<open>timestamp\<close>, \<open>lastUpdated\<close>,
  \<open>created_at\<close>) are not part of the embedding; rows of a table are kept in insertion
  order instead.
\<close>

datatype gateway = payhero | swiftwallet

datatype reply = Json nat json | SendStatus nat

datatype db_outcome = DbOk | DbError

record payment_request =
  phone :: string
  amount :: json
  reference :: string
  user_id :: json
  uniqueRef :: string
  gateway :: gateway
  resolved :: bool
  res :: "reply list"
  providerResponse :: json

record relay_state =
  transactionStatuses :: "string \<rightharpoonup> nat"
  heap :: "nat \<Rightarrow> payment_request"
  next_free :: nat
  timeouts :: "(nat \<times> string \<times> gateway) list"
  outbound :: "(gateway \<times> string \<times> string) list"
  payment_callbacks :: "json list"

text \<open>
  \<open>Map.get\<close> and \<open>Map.delete\<close> with a key read from a payload. The keys of the
  embedding are the strings; a key of another kind finds nothing (the relay server
  stores only generated references, which are strings).
\<close>

definition Map_get :: "(string \<rightharpoonup> 'v) \<Rightarrow> json \<Rightarrow> 'v option" where
  "Map_get m k = (case k of JStr s \<Rightarrow> m s | _ \<Rightarrow> None)"

definition Map_delete :: "(string \<rightharpoonup> 'v) \<Rightarrow> json \<Rightarrow> (string \<rightharpoonup> 'v)" where
  "Map_delete m k = (case k of JStr s \<Rightarrow> m(s := None) | _ \<Rightarrow> m)"

definition startsWith :: "string \<Rightarrow> string \<Rightarrow> bool" where
  "startsWith s p \<longleftrightarrow> take (length p) s = p"

definition fullPhone :: "string \<Rightarrow> string" where
  "fullPhone p = (if startsWith p ''254'' then p else ''254'' @ p)"

definition gateway_name :: "gateway \<Rightarrow> string" where
  "gateway_name g = (case g of payhero \<Rightarrow> ''payhero'' | swiftwallet \<Rightarrow> ''swiftwallet'')"

text \<open>
  \<open>res.json(body)\<close> on the response object of the request at address \<open>a\<close>. The call
  is recorded; the flag says whether it returned (\<open>True\<close>) or raised because the response
  had been sent already.
\<close>

definition res_json :: "nat \<Rightarrow> reply \<Rightarrow> relay_state \<Rightarrow> bool \<times> relay_state" where
  "res_json a body st =
     (res (heap st a) = [],
      st\<lparr>heap := (heap st)(a := (heap st a)\<lparr>res := res (heap st a) @ [body]\<rparr>)\<rparr>)"

section \<open>The relay server: /api/pay\<close>

text \<open>
  The handler up to its first \<open>await\<close>. \<open>phone.startsWith\<close>,
  \<open>reference.toLowerCase\<close> and \<open>reference.replace\<close> stand outside every \<open>try\<close>: on a
  value that is not a string they raise a TypeError that nothing catches, the handler
  ends there and no reply is written. Both gateways store the request before they call
  the provider. The result is the address of the stored object and the new state.
\<close>

definition relay_pay :: "json \<Rightarrow> nat \<Rightarrow> relay_state \<Rightarrow> js_error + (nat \<times> relay_state)" where
  "relay_pay body now st =
     (case jget body ''phone'' of
        JStr ph \<Rightarrow>
          (case jget body ''reference'' of
             JStr ref \<Rightarrow>
               (let gw = (if ref \<noteq> [] \<and> startsWith (toLowerCase ref) ''payp''
                          then payhero else swiftwallet);
                    uref = uniqueRef_of ref now;
                    a = next_free st;
                    paymentRequest =
                      \<lparr>phone = ph, amount = jget body ''amount'', reference = ref,
                       user_id = jget body ''user_id'', uniqueRef = uref, gateway = gw,
                       resolved = False, res = [], providerResponse = JUndefined\<rparr>
                in Inr (a, st\<lparr>transactionStatuses := (transactionStatuses st)(uref \<mapsto> a),
                              heap := (heap st)(a := paymentRequest),
                              next_free := a + 1,
                              outbound := outbound st @ [(gw, uref, fullPhone ph)]\<rparr>))
           | _ \<Rightarrow> Inl TypeError)
      | _ \<Rightarrow> Inl TypeError)"

text \<open>
  After the provider answered: the object gets the provider's body, is stored again
  under its reference, and the timer is set.
  \<^verbatim>\<open>paymentRequest.swiftResponse = swiftData;
  transactionStatuses.set(uniqueRef, paymentRequest);
  const timeout = setTimeout(() => { ... }, 120000);\<close>
\<close>

definition arm :: "nat \<Rightarrow> json \<Rightarrow> nat \<Rightarrow> relay_state \<Rightarrow> relay_state" where
  "arm a providerData now st =
     (let paymentRequest = heap st a in
      st\<lparr>heap := (heap st)(a := paymentRequest\<lparr>providerResponse := providerData\<rparr>),
         transactionStatuses := (transactionStatuses st)(uniqueRef paymentRequest \<mapsto> a),
         timeouts := timeouts st @ [(now + 120000, uniqueRef paymentRequest, gateway paymentRequest)]\<rparr>)"

text \<open>
  \<^verbatim>\<open>message: error.response?.data?.error || error.message || 'Payment failed'\<close>
  (PayHero reads \<open>data.message\<close> and falls back to \<open>'PayHero payment failed'\<close>).
\<close>

definition failure_message :: "string \<Rightarrow> axios_error \<Rightarrow> string \<Rightarrow> json" where
  "failure_message field error fallback =
     jor (case err_response error of
            Some (code, body) \<Rightarrow> jget body field
          | None \<Rightarrow> JUndefined)
         (jor (JStr (err_message error)) (JStr fallback))"

definition failed_body :: "json \<Rightarrow> string \<Rightarrow> json" where
  "failed_body message uref =
     JObj [(''status'', JStr ''FAILED''), (''message'', message),
           (''external_reference'', JStr uref)]"

definition log_retries :: "io list \<Rightarrow> nat \<Rightarrow> relay_state \<Rightarrow> relay_state" where
  "log_retries trace a st =
     st\<lparr>outbound := outbound st
          @ replicate (posts trace - 1)
              (swiftwallet, uniqueRef (heap st a), fullPhone (phone (heap st a)))\<rparr>"

text \<open>
  The continuation of \<open>/api/pay\<close> for the request at address \<open>a\<close>, given what the
  provider does at each call. PayHero is called once; SwiftWallet through the retry loop
  (the first call was made before the handler suspended, the later ones are logged
  here). A failure answers the caller with status 500 and leaves the map as it is.
\<close>

definition relay_pay_resume :: "nat \<Rightarrow> (nat \<Rightarrow> axios_result) \<Rightarrow> nat \<Rightarrow> relay_state \<Rightarrow> relay_state" where
  "relay_pay_resume a post now st =
     (case gateway (heap st a) of
        payhero \<Rightarrow>
          (case post 1 of
             Resolved code payheroData \<Rightarrow> arm a payheroData now st
           | Thrown error \<Rightarrow>
               snd (res_json a
                      (Json 500 (failed_body
                          (failure_message ''message'' error ''PayHero payment failed'')
                          (uniqueRef (heap st a)))) st))
      | swiftwallet \<Rightarrow>
          (case retry_loop post 1 [] of
             (Broke code swiftData, trace) \<Rightarrow> arm a swiftData now (log_retries trace a st)
           | (Threw error, trace) \<Rightarrow>
               snd (res_json a
                      (Json 500 (failed_body
                          (failure_message ''error'' error ''Payment failed'')
                          (uniqueRef (heap st a)))) (log_retries trace a st))
           | (Exhausted, trace) \<Rightarrow>
               snd (res_json a
                      (Json 500 (failed_body
                          (JStr ''Cannot read properties of undefined'')
                          (uniqueRef (heap st a)))) (log_retries trace a st))))"

section \<open>The relay server: the timer\<close>

text \<open>
  \<^verbatim>\<open>const request = transactionStatuses.get(uniqueRef);
  if (request && !request.resolved) {
    request.resolved = true;
    transactionStatuses.delete(uniqueRef);
    request.res.json({ success: false, status: 'TIMEOUT', message: ...,
                       external_reference: uniqueRef, gateway: 'swiftwallet' });
  }\<close>
  The closure holds the reference and the gateway name of the request that set it.
\<close>

definition timeout_body :: "string \<Rightarrow> gateway \<Rightarrow> json" where
  "timeout_body uref gw =
     JObj [(''success'', JBool False), (''status'', JStr ''TIMEOUT''),
           (''message'', JStr ''Payment timed out. Please check your phone and try again.''),
           (''external_reference'', JStr uref), (''gateway'', JStr (gateway_name gw))]"

definition relay_timeout :: "string \<Rightarrow> gateway \<Rightarrow> relay_state \<Rightarrow> relay_state" where
  "relay_timeout uref gw st =
     (case transactionStatuses st uref of
        None \<Rightarrow> st
      | Some a \<Rightarrow>
          if \<not> resolved (heap st a)
          then snd (res_json a (Json 200 (timeout_body uref gw))
                      (st\<lparr>heap := (heap st)(a := (heap st a)\<lparr>resolved := True\<rparr>),
                          transactionStatuses := (transactionStatuses st)(uref := None)\<rparr>))
          else st)"

section \<open>The relay server: /api/callback\<close>

definition resolution_body :: "json \<Rightarrow> json \<Rightarrow> json \<Rightarrow> payment_request \<Rightarrow> json" where
  "resolution_body status externalRef data memoryData =
     (if status = JStr ''SUCCESS'' \<or> status = JStr ''COMPLETED''
      then JObj [(''success'', JBool True), (''status'', JStr ''SUCCESS''),
                 (''message'', JStr ''Payment completed successfully''),
                 (''external_reference'', externalRef), (''amount'', amount memoryData),
                 (''phone'', JStr (phone memoryData)),
                 (''gateway'', JStr (gateway_name (gateway memoryData))),
                 (''callback_data'', data)]
      else JObj [(''success'', JBool False), (''status'', JStr ''FAILED''),
                 (''message'', JStr ''Payment failed''),
                 (''external_reference'', externalRef), (''amount'', amount memoryData),
                 (''phone'', JStr (phone memoryData)),
                 (''gateway'', JStr (gateway_name (gateway memoryData))),
                 (''callback_data'', data)])"

text \<open>
  The block that answers the waiting caller:
  \<^verbatim>\<open>const memoryData = transactionStatuses.get(externalRef);
  if (memoryData && memoryData.res && !memoryData.resolved) {
    ...
    memoryData.resolved = true;
    memoryData.res.json({ ... });
    transactionStatuses.delete(externalRef);
  }\<close>
  No \<open>await\<close> stands between the lookup and the removal. The flag of the result is
  \<open>False\<close> when \<open>res.json\<close> raised, which skips the removal.
\<close>

definition notify_waiting :: "json \<Rightarrow> json \<Rightarrow> json \<Rightarrow> relay_state \<Rightarrow> bool \<times> relay_state" where
  "notify_waiting externalRef status data st =
     (case Map_get (transactionStatuses st) externalRef of
        None \<Rightarrow> (True, st)
      | Some a \<Rightarrow>
          if \<not> resolved (heap st a)
          then (case res_json a
                       (Json 200 (resolution_body status externalRef data (heap st a)))
                       (st\<lparr>heap := (heap st)(a := (heap st a)\<lparr>resolved := True\<rparr>)\<rparr>) of
                  (True, st1) \<Rightarrow>
                    (True, st1\<lparr>transactionStatuses :=
                                 Map_delete (transactionStatuses st1) externalRef\<rparr>)
                | (False, st1) \<Rightarrow> (False, st1))
          else (True, st))"

definition callback_row :: "json \<Rightarrow> json \<Rightarrow> json \<Rightarrow> json" where
  "callback_row externalRef data status =
     JObj [(''external_reference'', externalRef), (''callback_data'', data),
           (''status'', status)]"

text \<open>
  The insert into \<open>payment_callbacks\<close>; the store either takes the row or returns an
  error, which the handler logs.
\<close>

definition store_callback :: "db_outcome \<Rightarrow> json \<Rightarrow> relay_state \<Rightarrow> relay_state" where
  "store_callback ins row st =
     (case ins of
        DbOk \<Rightarrow> st\<lparr>payment_callbacks := payment_callbacks st @ [row]\<rparr>
      | DbError \<Rightarrow> st)"

text \<open>
  The log line between the lookup and the block that answers:
  \<^verbatim>\<open>const memoryData = transactionStatuses.get(externalRef);
  logProcess('MEMORY_LOOKUP', { external_ref: externalRef, memory_data: memoryData }, 'DEBUG');\<close>
  \<open>logProcess\<close> prints \<open>JSON.stringify(data, null, 2)\<close>. When the lookup finds
  nothing, \<open>memory_data\<close> is \<open>undefined\<close> and is left out. When it finds a request, the
  request holds \<open>res\<close>, the live response object of Express, which refers to its request
  and from there back to itself: \<open>JSON.stringify\<close> raises a TypeError (\<open>Converting
  circular structure to JSON\<close>). Every object the relay server puts into the map holds
  such a \<open>res\<close>.
\<close>

definition logProcess_MEMORY_LOOKUP :: "nat option \<Rightarrow> js_error + unit" where
  "logProcess_MEMORY_LOOKUP memoryData =
     (case memoryData of
        None \<Rightarrow> Inr ()
      | Some a \<Rightarrow> Inl TypeError)"

text \<open>
  The handler. Two things run before the \<open>try\<close>, and what they raise ends the handler
  with nothing done and nothing sent: the first log line, which reads
  \<open>JSON.stringify(swiftData).length\<close> (a TypeError when there is no body at all), and
  the transformation. Everything after them is inside the \<open>try\<close>, whose \<open>catch\<close> sends
  200 as the normal path does. The log line of the lookup is inside the \<open>try\<close>: when
  the lookup finds a request, the handler goes from there to the \<open>catch\<close>, past the
  block that answers the caller and past the insert.
\<close>

definition relay_callback :: "json \<Rightarrow> db_outcome \<Rightarrow> relay_state \<Rightarrow> js_error + (reply \<times> relay_state)" where
  "relay_callback swiftData ins st =
     (if swiftData = JUndefined then Inl TypeError
      else
       (case relay_transformSwiftWalletCallbackToPayHero swiftData of
          Inl e \<Rightarrow> Inl e
        | Inr data \<Rightarrow>
            (let statusRaw = jor (jget (jget data ''response'') ''Status'') (jget data ''status'')
             in case (if truthy statusRaw then call_toUpperCase statusRaw else Inr JNull) of
                  Inl e \<Rightarrow> Inr (SendStatus 200, st)
                | Inr status \<Rightarrow>
                    (let externalRef =
                           jor (jget (jget data ''response'') ''ExternalReference'')
                               (jor (jget data ''external_reference'') (jget data ''reference''))
                     in case logProcess_MEMORY_LOOKUP
                               (Map_get (transactionStatuses st) externalRef) of
                          Inl e \<Rightarrow> Inr (SendStatus 200, st)
                        | Inr u \<Rightarrow>
                            (case notify_waiting externalRef status data st of
                               (True, st1) \<Rightarrow>
                                 Inr (SendStatus 200,
                                      store_callback ins (callback_row externalRef data status) st1)
                             | (False, st1) \<Rightarrow> Inr (SendStatus 200, st1))))))"

section \<open>The relay server: /api/status\<close>




section \<open>The relay server: runs\<close>

text \<open>
  One event is one uninterrupted stretch of a handler: the first part of \<open>/api/pay\<close>,
  its continuation, a webhook, a timer, a status poll. Between the lookup and the last
  change of the map or of a request object no handler awaits, so a stretch never
  interleaves with another one. A handler that raises leaves the state as it found it.
  \<open>PayResumed a\<close> is the continuation of the request that the first part stored at
  address \<open>a\<close>; there is none for an address not yet in use.
\<close>

datatype relay_event =
    Pay json nat
  | PayResumed nat "nat \<Rightarrow> axios_result" nat
  | Webhook json db_outcome
  | Timeout string gateway
  | StatusPoll string db_outcome

fun relay_step :: "relay_event \<Rightarrow> relay_state \<Rightarrow> relay_state" where
  "relay_step (Pay body now) st =
     (case relay_pay body now st of Inl e \<Rightarrow> st | Inr (a, st') \<Rightarrow> st')"
| "relay_step (PayResumed a post now) st =
     (if a < next_free st then relay_pay_resume a post now st else st)"
| "relay_step (Webhook swiftData ins) st =
     (case relay_callback swiftData ins st of Inl e \<Rightarrow> st | Inr (r, st') \<Rightarrow> st')"
| "relay_step (Timeout uref gw) st = relay_timeout uref gw st"
| "relay_step (StatusPoll externalRef query) st = st"

declare relay_step.simps(3) [simp del]

definition relay_run :: "relay_event list \<Rightarrow> relay_state \<Rightarrow> relay_state" where
  "relay_run evs st = fold relay_step evs st"

definition relay_init :: relay_state where
  "relay_init =
     \<lparr>transactionStatuses = Map.empty,
      heap = (\<lambda>a. \<lparr>phone = [], amount = JUndefined, reference = [], user_id = JUndefined,
                    uniqueRef = [], gateway = swiftwallet, resolved = False, res = [],
                    providerResponse = JUndefined\<rparr>),
      next_free = 0, timeouts = [], outbound = [], payment_callbacks = []\<rparr>"

section \<open>Schedules and invariants of the relay server\<close>

text \<open>The provider accepted the initiation: PayHero at its one call, SwiftWallet within the loop.\<close>

definition initiated :: "gateway \<Rightarrow> (nat \<Rightarrow> axios_result) \<Rightarrow> bool" where
  "initiated gw post =
     (case gw of
        payhero \<Rightarrow> (case post 1 of Resolved c d \<Rightarrow> True | Thrown e \<Rightarrow> False)
      | swiftwallet \<Rightarrow>
          (case fst (retry_loop post 1 []) of Broke c d \<Rightarrow> True | _ \<Rightarrow> False))"

text \<open>
  Events that have nothing to do with the request stored at address \<open>a\<close> under the
  reference \<open>k\<close>, in a schedule that starts in the state \<open>st\<close>: a payment request that
  generates another reference (or raises before it generates one); the continuation of
  another request, provided the request does not carry \<open>k\<close> (a reference never changes,
  so for a request that exists in \<open>st\<close> it is read there; a request stored later comes
  from a payment request of the schedule); a webhook or a timer for another reference;
  a status poll.
\<close>

fun apart :: "string \<Rightarrow> nat \<Rightarrow> relay_state \<Rightarrow> relay_event \<Rightarrow> bool" where
  "apart k a st (Pay body now) \<longleftrightarrow>
     (case jget body ''phone'' of
        JStr ph \<Rightarrow>
          (case jget body ''reference'' of
             JStr ref \<Rightarrow> uniqueRef_of ref now \<noteq> k
           | _ \<Rightarrow> True)
      | _ \<Rightarrow> True)"
| "apart k a st (PayResumed b post now) \<longleftrightarrow>
     b \<noteq> a \<and> (b < next_free st \<longrightarrow> uniqueRef (heap st b) \<noteq> k)"
| "apart k a st (Webhook swiftData ins) \<longleftrightarrow> jget swiftData ''external_reference'' \<noteq> JStr k"
| "apart k a st (Timeout uref gw) \<longleftrightarrow> uref \<noteq> k"
| "apart k a st (StatusPoll externalRef query) \<longleftrightarrow> True"

text \<open>
  Events that do not end the wait of that request (\<open>gw\<close> is its gateway): the events
  apart from it, every webhook, also one that names \<open>k\<close>, and the request's own
  continuation after a call that the provider accepted.
\<close>

fun harmless :: "string \<Rightarrow> nat \<Rightarrow> gateway \<Rightarrow> relay_state \<Rightarrow> relay_event \<Rightarrow> bool" where
  "harmless k a gw st (Webhook swiftData ins) \<longleftrightarrow> True"
| "harmless k a gw st (PayResumed b post now) \<longleftrightarrow>
     (if b = a then initiated gw post else apart k a st (PayResumed b post now))"
| "harmless k a gw st (Pay body now) \<longleftrightarrow> apart k a st (Pay body now)"
| "harmless k a gw st (Timeout uref g) \<longleftrightarrow> apart k a st (Timeout uref g)"
| "harmless k a gw st (StatusPoll externalRef query) \<longleftrightarrow> True"

text \<open>The request's own continuation after an initiation that failed.\<close>

fun rejected_continuation :: "nat \<Rightarrow> gateway \<Rightarrow> relay_event \<Rightarrow> bool" where
  "rejected_continuation a gw (PayResumed b post now) \<longleftrightarrow> b = a \<and> \<not> initiated gw post"
| "rejected_continuation a gw ev \<longleftrightarrow> False"

text \<open>
  An invariant of the schedules that start in \<open>st0\<close> and consist of events harmless to
  the request at \<open>a\<close>: in every later state \<open>st\<close>, each other request whose
  continuation such a schedule admits carries a reference other than \<open>k\<close>.
\<close>

definition elsewhere :: "string \<Rightarrow> nat \<Rightarrow> relay_state \<Rightarrow> relay_state \<Rightarrow> bool" where
  "elsewhere k a st0 st \<longleftrightarrow>
     (\<forall>b. b < next_free st \<longrightarrow> b \<noteq> a \<longrightarrow>
        (b < next_free st0 \<longrightarrow> uniqueRef (heap st0 b) \<noteq> k) \<longrightarrow>
        uniqueRef (heap st b) \<noteq> k)"

text \<open>The rows of \<open>payment_callbacks\<close> that belong to the reference \<open>k\<close>.\<close>

definition names :: "string \<Rightarrow> json \<Rightarrow> bool" where
  "names k row \<longleftrightarrow> jget row ''external_reference'' = JStr k"

text \<open>
  Every key of the map leads to an allocated object that carries this key
  (\<open>registered\<close>), and moreover to one that is neither resolved nor answered
  (\<open>pending_only\<close>).
\<close>

definition registered :: "relay_state \<Rightarrow> bool" where
  "registered st \<longleftrightarrow>
     (\<forall>k a. transactionStatuses st k = Some a \<longrightarrow>
        a < next_free st \<and> uniqueRef (heap st a) = k)"

definition pending_only :: "relay_state \<Rightarrow> bool" where
  "pending_only st \<longleftrightarrow>
     (\<forall>k a. transactionStatuses st k = Some a \<longrightarrow>
        a < next_free st \<and> uniqueRef (heap st a) = k
        \<and> \<not> resolved (heap st a) \<and> res (heap st a) = [])"

fun is_PayResumed :: "relay_event \<Rightarrow> bool" where
  "is_PayResumed (PayResumed a post now) \<longleftrightarrow> True"
| "is_PayResumed ev \<longleftrightarrow> False"

text \<open>A provider that rejects every call with HTTP 400 and a structured error body.\<close>

definition provider_rejects :: "nat \<Rightarrow> axios_result" where
  "provider_rejects n =
     Thrown (AxiosError ''Request failed with status code 400''
               (Some (400, JObj [(''error'', JStr ''Invalid phone number'')])))"

section \<open>A payment, for the examples\<close>

text \<open>
  The request \<open>{phone: "0712345678", amount: 500, reference: "ACT123"}\<close> at the clock
  reading 1712345670042, a SwiftWallet that accepts the first call, and the state in
  which the caller of that request waits. The generated reference is \<open>ACT10042\<close>.
\<close>

definition example_body :: json where
  "example_body =
     JObj [(''phone'', JStr ''0712345678''), (''amount'', JNum 500),
           (''reference'', JStr ''ACT123'')]"

definition provider_accepts :: "nat \<Rightarrow> axios_result" where
  "provider_accepts n = Resolved 200 (JObj [(''status'', JStr ''initiated'')])"

definition example_held :: relay_state where
  "example_held =
     relay_run [Pay example_body 1712345670042, PayResumed 0 provider_accepts 1712345670900]
       relay_init"

definition example_webhook :: json where
  "example_webhook =
     JObj [(''success'', JBool True), (''status'', JStr ''completed''),
           (''external_reference'', JStr ''ACT10042''), (''amount'', JNum 500)]"


definition other_body :: json where
  "other_body =
     JObj [(''phone'', JStr ''254700000001''), (''amount'', JNum 100),
           (''reference'', JStr ''PAYP77'')]"

section \<open>The polling servers: state and shared steps\<close>

text \<open>
  The other servers answer \<open>/api/pay\<close> at once and let the client poll. Their map
  \<open>transactionStatuses\<close> holds plain status objects. The tables are those of the store:
  \<open>payment_callbacks\<close>, \<open>activation_payments\<close> and the ledger \<open>transactions\<close>. Each
  call of the store either succeeds or returns an error; \<open>store_env\<close> says which, per
  call site. Keys of the map that are not strings, the \<open>users\<close> table (activation
  flag, wallet balance) and the commission procedure are not part of the embedding: the
  handlers only log what those calls return.
\<close>

record polling_state =
  transactionStatuses' :: "string \<rightharpoonup> json"
  payment_callbacks' :: "json list"
  activation_payments :: "json list"
  transactions :: "json list"

record store_env =
  cb_insert :: db_outcome
  cb_alt_insert :: db_outcome
  ap_update :: db_outcome
  tx_insert :: db_outcome

text \<open>
  \<^verbatim>\<open>const statusRaw = data?.response?.Status || data?.status;
  const status = statusRaw ? statusRaw.toUpperCase() : null;
  const externalRef = data?.response?.ExternalReference || data?.external_reference
    || data?.response?.external_reference || data?.reference;\<close>
\<close>

definition parse_status :: "json \<Rightarrow> js_error + json" where
  "parse_status data =
     (let statusRaw = jor (jget (jget data ''response'') ''Status'') (jget data ''status'')
      in if truthy statusRaw then call_toUpperCase statusRaw else Inr JNull)"

definition parse_externalRef :: "json \<Rightarrow> json" where
  "parse_externalRef data =
     jor (jget (jget data ''response'') ''ExternalReference'')
       (jor (jget data ''external_reference'')
          (jor (jget (jget data ''response'') ''external_reference'')
               (jget data ''reference'')))"

text \<open>\<open>status && status.toLowerCase() === s\<close>, for a status that \<open>parse_status\<close> returned.\<close>

definition status_is :: "json \<Rightarrow> string \<Rightarrow> bool" where
  "status_is status s \<longleftrightarrow> truthy status \<and> call_toLowerCase status = Inr (JStr s)"

text \<open>
  The insert into \<open>payment_callbacks\<close>, with the second attempt (\<open>without .select()\<close>)
  that the later servers make when the first returns an error.
\<close>

definition store_callback' :: "store_env \<Rightarrow> json \<Rightarrow> polling_state \<Rightarrow> polling_state" where
  "store_callback' env row st =
     (case cb_insert env of
        DbOk \<Rightarrow> st\<lparr>payment_callbacks' := payment_callbacks' st @ [row]\<rparr>
      | DbError \<Rightarrow>
          (case cb_alt_insert env of
             DbOk \<Rightarrow> st\<lparr>payment_callbacks' := payment_callbacks' st @ [row]\<rparr>
           | DbError \<Rightarrow> st))"

text \<open>The ledger row (without its description and its time of processing).\<close>

definition transaction_row :: "json \<Rightarrow> json \<Rightarrow> json \<Rightarrow> json" where
  "transaction_row userId amt externalRef =
     JObj [(''user_id'', userId), (''type'', JStr ''deposit''), (''amount'', amt),
           (''fee'', JNum 0), (''net_amount'', amt), (''status'', JStr ''completed''),
           (''external_reference'', externalRef), (''payment_method'', JStr ''m-pesa'')]"

definition create_transaction :: "store_env \<Rightarrow> json \<Rightarrow> polling_state \<Rightarrow> polling_state" where
  "create_transaction env row st =
     (case tx_insert env of
        DbOk \<Rightarrow> st\<lparr>transactions := transactions st @ [row]\<rparr>
      | DbError \<Rightarrow> st)"

text \<open>\<open>{ ...obj, k1: v1, k2: v2 }\<close>: the properties of \<open>obj\<close>, the named ones replaced or added.\<close>

definition spread_with :: "json \<Rightarrow> (string \<times> json) list \<Rightarrow> json" where
  "spread_with obj updates =
     JObj (fold (\<lambda>(k, v) kvs. AList.update k v kvs) updates
             (case obj of JObj kvs \<Rightarrow> kvs | _ \<Rightarrow> []))"

section \<open>The SwiftWallet polling server (app.js)\<close>

text \<open>
  \<^verbatim>\<open>if (memoryData && externalRef) {
    const isVerified = status && status.toLowerCase() === 'success';
    transactionStatuses.set(externalRef, { ...memoryData,
      status: status ? status.toUpperCase() : memoryData.status,
      verified: isVerified, lastUpdated: new Date().toISOString() });
  }\<close>
\<close>

definition update_memory :: "json \<Rightarrow> json \<Rightarrow> json \<Rightarrow> polling_state \<Rightarrow> polling_state" where
  "update_memory memoryData externalRef status st =
     (if truthy memoryData \<and> truthy externalRef
      then (case externalRef of
              JStr k \<Rightarrow>
                (case (if truthy status then call_toUpperCase status
                       else Inr (jget memoryData ''status'')) of
                   Inr newStatus \<Rightarrow>
                     st\<lparr>transactionStatuses' := (transactionStatuses' st)(k \<mapsto>
                          spread_with memoryData
                            [(''status'', newStatus),
                             (''verified'', if truthy status
                                            then JBool (status_is status ''success'')
                                            else status)])\<rparr>
                 | Inl e \<Rightarrow> st)
            | _ \<Rightarrow> st)
      else st)"

text \<open>
  \<open>/api/callback\<close>. The result is the reply, if the handler sends one, and the new
  state. In the success branch
  \<^verbatim>\<open>const userId = memoryData?.user_id;
  if (!userId) {
    console.error('No user_id found in memory for:', externalRef);
    return;
  }\<close>
  leaves the handler before \<open>res.sendStatus(200)\<close>.
\<close>

definition swift_callback :: "json \<Rightarrow> store_env \<Rightarrow> polling_state \<Rightarrow> reply option \<times> polling_state" where
  "swift_callback swiftData env st =
     (let data = polling_transformSwiftWalletCallbackToPayHero swiftData
      in case parse_status data of
           Inl e \<Rightarrow> (Some (SendStatus 200), st)
         | Inr status \<Rightarrow>
             (let externalRef = parse_externalRef data;
                  memoryData = (case Map_get (transactionStatuses' st) externalRef of
                                  Some m \<Rightarrow> m | None \<Rightarrow> JUndefined)
              in if truthy externalRef
                 then (let st1 = store_callback' env (callback_row externalRef data status) st
                       in if status_is status ''success''
                          then (let userId = jget memoryData ''user_id''
                                in if \<not> truthy userId then (None, st1)
                                   else (Some (SendStatus 200),
                                         update_memory memoryData externalRef status
                                           (create_transaction env
                                              (transaction_row userId
                                                 (jor (jget (jget data ''response'') ''Amount'')
                                                      (JNum 5))
                                                 externalRef) st1)))
                          else (Some (SendStatus 200),
                                update_memory memoryData externalRef status st1))
                 else (Some (SendStatus 200), st)))"


section \<open>The first PayHero server (app.js)\<close>


section \<open>The PayHero polling servers (app.js, activation payments; wallet deposits)\<close>

text \<open>
  \<open>/api/pay\<close> of the PayHero server. \<open>phone.startsWith\<close> stands before the \<open>try\<close>.
  Inside it, reading \<open>data.status\<close> of a missing body and upper-casing a status that is
  not a string raise; the \<open>catch\<close> answers 500 with the error's message.
\<close>

definition payhero_failure :: "json \<Rightarrow> json \<Rightarrow> reply" where
  "payhero_failure message err =
     Json 500 (JObj [(''status'', JStr ''Failure''), (''message'', message), (''error'', err)])"

definition payhero_pay :: "json \<Rightarrow> axios_result \<Rightarrow> polling_state \<Rightarrow> js_error + (reply \<times> polling_state)" where
  "payhero_pay body post st =
     (case jget body ''phone'' of
        JStr ph \<Rightarrow>
          (case post of
             Thrown error \<Rightarrow>
               Inr (payhero_failure (failure_message ''message'' error ''Payment failed'')
                      (jor (case err_response error of
                              Some (code, d) \<Rightarrow> d | None \<Rightarrow> JUndefined) JNull), st)
           | Resolved code data \<Rightarrow>
               (let statusKey = jor (jget data ''external_reference'') (jget body ''reference'')
                in if data = JNull \<or> data = JUndefined
                   then Inr (payhero_failure (JStr ''Cannot read properties'') JNull, st)
                   else (case call_toUpperCase (jor (jget data ''status'') (JStr ''QUEUED'')) of
                           Inl e \<Rightarrow>
                             if truthy statusKey
                             then Inr (payhero_failure
                                         (JStr ''toUpperCase is not a function'') JNull, st)
                             else Inr (Json 200 (JObj [
                                    (''status'', jor (jget data ''status'') (JStr ''QUEUED'')),
                                    (''message'', jor (jget data ''message'')
                                                      (JStr ''STK Push initiated.'')),
                                    (''checkoutRequestID'',
                                       jor (jget data ''CheckoutRequestID'') JNull),
                                    (''external_reference'', statusKey), (''raw'', data)]), st)
                         | Inr upper \<Rightarrow>
                             Inr (Json 200 (JObj [
                                    (''status'', jor (jget data ''status'') (JStr ''QUEUED'')),
                                    (''message'', jor (jget data ''message'')
                                                      (JStr ''STK Push initiated.'')),
                                    (''checkoutRequestID'',
                                       jor (jget data ''CheckoutRequestID'') JNull),
                                    (''external_reference'', statusKey), (''raw'', data)]),
                                  (case statusKey of
                                     JStr k \<Rightarrow>
                                       if k \<noteq> []
                                       then st\<lparr>transactionStatuses' := (transactionStatuses' st)(k \<mapsto>
                                              JObj [(''status'', upper),
                                                    (''details'', jor (jget data ''message'')
                                                       (JStr ''STK Push initiated, waiting for user confirmation.'')),
                                                    (''checkoutRequestID'',
                                                       jor (jget data ''CheckoutRequestID'') JNull)])\<rparr>
                                       else st
                                   | _ \<Rightarrow> st)))))
      | _ \<Rightarrow> Inl TypeError)"

text \<open>
  The update of \<open>activation_payments\<close> with \<open>.eq('external_reference',
  externalRef).select(...).single()\<close>: every row of the reference gets the new status
  and the payload (the time of confirmation is left out); the result carries the row
  when there is exactly one.
\<close>

definition confirm_activation :: "store_env \<Rightarrow> json \<Rightarrow> json \<Rightarrow> polling_state \<Rightarrow> json option \<times> polling_state" where
  "confirm_activation env externalRef data st =
     (case ap_update env of
        DbError \<Rightarrow> (None, st)
      | DbOk \<Rightarrow>
          (let updated = map (\<lambda>row. if jget row ''external_reference'' = externalRef
                                     then spread_with row [(''status'', JStr ''SUCCESS''),
                                                          (''payhero_response'', data)]
                                     else row) (activation_payments st)
           in (case filter (\<lambda>row. jget row ''external_reference'' = externalRef) updated of
                 [row] \<Rightarrow> Some row
               | _ \<Rightarrow> None,
               st\<lparr>activation_payments := updated\<rparr>)))"

definition fail_activation :: "store_env \<Rightarrow> json \<Rightarrow> json \<Rightarrow> polling_state \<Rightarrow> polling_state" where
  "fail_activation env externalRef data st =
     (case ap_update env of
        DbError \<Rightarrow> st
      | DbOk \<Rightarrow>
          st\<lparr>activation_payments :=
               map (\<lambda>row. if jget row ''external_reference'' = externalRef
                            then spread_with row [(''status'', JStr ''FAILED''),
                                                 (''payhero_response'', data)]
                            else row) (activation_payments st)\<rparr>)"

text \<open>
  \<open>/api/callback\<close> of the PayHero server with activation payments (app.js). The success
  branch confirms the activation payment and, when that returned its row, inserts the
  ledger row
  \<^verbatim>\<open>{ user_id: paymentData.user_id, type: 'deposit',
    amount: paymentData.amount || 500, ... }\<close>
\<close>

definition payhero_callback :: "json \<Rightarrow> store_env \<Rightarrow> polling_state \<Rightarrow> reply option \<times> polling_state" where
  "payhero_callback data env st =
     (case parse_status data of
        Inl e \<Rightarrow> (Some (SendStatus 200), st)
      | Inr status \<Rightarrow>
          (let externalRef = parse_externalRef data
           in if truthy externalRef
              then (let st1 = (case cb_insert env of
                                 DbOk \<Rightarrow> st\<lparr>payment_callbacks' := payment_callbacks' st
                                              @ [callback_row externalRef data status]\<rparr>
                               | DbError \<Rightarrow> st)
                    in if status_is status ''success''
                       then (case confirm_activation env externalRef data st1 of
                               (Some paymentData, st2) \<Rightarrow>
                                 (Some (SendStatus 200),
                                  create_transaction env
                                    (transaction_row (jget paymentData ''user_id'')
                                       (jor (jget paymentData ''amount'') (JNum 500))
                                       externalRef) st2)
                             | (None, st2) \<Rightarrow> (Some (SendStatus 200), st2))
                       else if status_is status ''failed''
                            then (Some (SendStatus 200), fail_activation env externalRef data st1)
                            else (Some (SendStatus 200), st1))
              else (Some (SendStatus 200), st)))"

text \<open>
  \<open>/api/callback\<close> of the PayHero server for wallet deposits. The user comes from the
  map entry that \<open>/api/pay\<close> stored; without one the handler returns early, as the
  SwiftWallet polling server does.
\<close>

definition deposit_callback :: "json \<Rightarrow> store_env \<Rightarrow> polling_state \<Rightarrow> reply option \<times> polling_state" where
  "deposit_callback data env st =
     (case parse_status data of
        Inl e \<Rightarrow> (Some (SendStatus 200), st)
      | Inr status \<Rightarrow>
          (let externalRef = parse_externalRef data
           in if truthy externalRef
              then (let st1 = store_callback' env (callback_row externalRef data status) st
                    in if status_is status ''success''
                       then (let memoryData = (case Map_get (transactionStatuses' st1) externalRef of
                                                 Some m \<Rightarrow> m | None \<Rightarrow> JUndefined);
                                 userId = jget memoryData ''user_id''
                             in if \<not> truthy userId then (None, st1)
                                else (Some (SendStatus 200),
                                      create_transaction env
                                        (transaction_row userId
                                           (jor (jget (jget data ''response'') ''Amount'') (JNum 5))
                                           externalRef) st1))
                       else (Some (SendStatus 200), st1))
              else (Some (SendStatus 200), st)))"


definition polling_init :: polling_state where
  "polling_init =
     \<lparr>transactionStatuses' = Map.empty, payment_callbacks' = [],
      activation_payments = [], transactions = []\<rparr>"

section \<open>The SwiftWallet polling server: /api/pay\<close>

text \<open>
  \<^verbatim>\<open>status: swiftResponse?.status?.toLowerCase() === 'initiated' ? 'QUEUED'
            : (swiftResponse?.status || 'QUEUED'),
  message: swiftResponse?.message || 'STK Push initiated.',
  CheckoutRequestID: swiftResponse?.checkout_request_id || null,
  external_reference: swiftResponse?.reference || swiftResponse?.external_reference\<close>
\<close>

definition polling_transformSwiftWalletToPayHero :: "json \<Rightarrow> js_error + json" where
  "polling_transformSwiftWalletToPayHero swiftResponse =
     (case opt_toLowerCase (jget swiftResponse ''status'') of
        Inl e \<Rightarrow> Inl e
      | Inr l \<Rightarrow>
          Inr (JObj [
            (''status'', if l = JStr ''initiated'' then JStr ''QUEUED''
                         else jor (jget swiftResponse ''status'') (JStr ''QUEUED'')),
            (''message'', jor (jget swiftResponse ''message'') (JStr ''STK Push initiated.'')),
            (''CheckoutRequestID'', jor (jget swiftResponse ''checkout_request_id'') JNull),
            (''external_reference'', jor (jget swiftResponse ''reference'')
                                       (jget swiftResponse ''external_reference''))]))"

text \<open>
  The handler stores, under the provider's reference or else the caller's,
  \<^verbatim>\<open>{ status: (payHeroData.status || 'QUEUED').toUpperCase(), details: ...,
    checkoutRequestID: ..., lastUpdated: ..., user_id: user_id, verified: false }\<close>
  and answers at once. Every exception after the telephone check is caught and answered
  with status 500.
\<close>

definition swift_pay :: "json \<Rightarrow> axios_result \<Rightarrow> polling_state \<Rightarrow> js_error + (reply \<times> polling_state)" where
  "swift_pay body post st =
     (case jget body ''phone'' of
        JStr ph \<Rightarrow>
          (case post of
             Thrown error \<Rightarrow>
               Inr (payhero_failure (failure_message ''error'' error ''Payment failed'')
                      (jor (case err_response error of
                              Some (code, d) \<Rightarrow> d | None \<Rightarrow> JUndefined) JNull), st)
           | Resolved code swiftData \<Rightarrow>
               (case polling_transformSwiftWalletToPayHero swiftData of
                  Inl e \<Rightarrow>
                    Inr (payhero_failure (JStr ''toLowerCase is not a function'') JNull, st)
                | Inr payHeroData \<Rightarrow>
                    (let statusKey = jor (jget payHeroData ''external_reference'')
                                         (jget body ''reference'');
                         answer = Json 200 (JObj [
                           (''status'', jor (jget payHeroData ''status'') (JStr ''QUEUED'')),
                           (''message'', jor (jget payHeroData ''message'')
                                             (JStr ''STK Push initiated.'')),
                           (''checkoutRequestID'',
                              jor (jget payHeroData ''CheckoutRequestID'') JNull),
                           (''external_reference'', statusKey), (''raw'', swiftData)])
                     in if truthy statusKey
                        then (case call_toUpperCase
                                     (jor (jget payHeroData ''status'') (JStr ''QUEUED'')) of
                                Inl e \<Rightarrow>
                                  Inr (payhero_failure
                                         (JStr ''toUpperCase is not a function'') JNull, st)
                              | Inr upper \<Rightarrow>
                                  Inr (answer,
                                       (case statusKey of
                                          JStr k \<Rightarrow>
                                            st\<lparr>transactionStatuses' := (transactionStatuses' st)(k \<mapsto>
                                                 JObj [(''status'', upper),
                                                       (''details'', jor (jget payHeroData ''message'')
                                                          (JStr ''STK Push initiated, waiting for user confirmation.'')),
                                                       (''checkoutRequestID'',
                                                          jor (jget payHeroData ''CheckoutRequestID'') JNull),
                                                       (''user_id'', jget body ''user_id''),
                                                       (''verified'', JBool False)])\<rparr>
                                        | _ \<Rightarrow> st)))
                        else Inr (answer, st))))
      | _ \<Rightarrow> Inl TypeError)"

section \<open>The SwiftWallet polling server with the retry loop (part_000): /api/pay\<close>




section \<open>Polling: examples\<close>

text \<open>
  A store that accepts every call; the payment request of the examples with a user; a
  SwiftWallet answer that echoes the reference; the state after \<open>/api/pay\<close> stored that
  request; the success webhook for it; and the PayHero state in which user \<open>u1\<close> has one
  activation payment under the reference, with the PayHero success webhook.
\<close>

definition store_ok :: store_env where
  "store_ok = \<lparr>cb_insert = DbOk, cb_alt_insert = DbOk, ap_update = DbOk, tx_insert = DbOk\<rparr>"

definition example_body_user :: json where
  "example_body_user =
     JObj [(''phone'', JStr ''0712345678''), (''amount'', JNum 500),
           (''reference'', JStr ''ACT123''), (''user_id'', JStr ''u1'')]"

definition swift_accepts :: axios_result where
  "swift_accepts =
     Resolved 200 (JObj [(''success'', JBool True), (''status'', JStr ''initiated''),
                         (''reference'', JStr ''ACT123'')])"

definition polling_queued :: polling_state where
  "polling_queued =
     (case swift_pay example_body_user swift_accepts polling_init of
        Inr (r, st) \<Rightarrow> st
      | Inl e \<Rightarrow> polling_init)"

definition polling_webhook :: json where
  "polling_webhook =
     JObj [(''success'', JBool True), (''status'', JStr ''completed''),
           (''external_reference'', JStr ''ACT123''), (''amount'', JNum 500)]"

definition activation_pending :: polling_state where
  "activation_pending =
     polling_init\<lparr>activation_payments :=
       [JObj [(''external_reference'', JStr ''ACT123''), (''user_id'', JStr ''u1''),
              (''amount'', JNum 500), (''status'', JStr ''PENDING'')]]\<rparr>"

definition payhero_webhook :: json where
  "payhero_webhook =
     JObj [(''response'', JObj [(''Status'', JStr ''Success''),
                                (''ExternalReference'', JStr ''ACT123''),
                                (''Amount'', JNum 500)])]"

text \<open>
  The relay state right after \<open>/api/pay\<close> stored the request of the examples, and the
  polling state in which a payment without a user was started and its success webhook
  has been handled.
\<close>

definition example_registered :: relay_state where
  "example_registered = relay_step (Pay example_body 1712345670042) relay_init"


section \<open>Facts about the adapter\<close>

lemma payHeroCallback_Status [simp]:
  "jget (jget (payHeroCallback sw st) ''response'') ''Status'' = JStr st"
  by (simp add: payHeroCallback_def)

lemma payHeroCallback_status_undefined [simp]:
  "jget (payHeroCallback sw st) ''status'' = JUndefined"
  by (simp add: payHeroCallback_def)

lemma payHeroCallback_ExternalReference [simp]:
  "jget (jget (payHeroCallback sw st) ''response'') ''ExternalReference''
     = jget sw ''external_reference''"
  by (simp add: payHeroCallback_def)

lemma payHeroCallback_external_reference [simp]:
  "jget (payHeroCallback sw st) ''external_reference'' = jget sw ''external_reference''"
  by (simp add: payHeroCallback_def)

lemma payHeroCallback_reference [simp]:
  "jget (payHeroCallback sw st) ''reference'' = jget sw ''external_reference''"
  by (simp add: payHeroCallback_def)

lemma payHeroCallback_response_external_reference [simp]:
  "jget (jget (payHeroCallback sw st) ''response'') ''external_reference'' = JUndefined"
  by (simp add: payHeroCallback_def)

lemma opt_toLowerCase_JStr:
  "opt_toLowerCase v = Inr (JStr l) \<Longrightarrow> \<exists>s. v = JStr s \<and> toLowerCase s = l"
  by (cases v) auto

lemma toLowerCase_completed [simp]:
  "toLowerCase ''completed'' = ''completed''" "toLowerCase ''COMPLETED'' = ''completed''"
  by (simp_all add: toLowerCase_def lower_char_def)

text \<open>
  C3, as the code has it. Normalisation reports \<open>Success\<close> only when the payload's
  \<open>success\<close> is \<open>true\<close> and its \<open>status\<close> is a string that lower-cases to
  \<open>completed\<close>; this holds for the polling server's transformation (which accepts the
  two spellings \<open>completed\<close> and \<open>COMPLETED\<close>) and for the relay server's (which
  lower-cases, and reports \<open>Success\<close> for every such string). A payload without
  \<open>success: true\<close>, without a status, or with a status string that does not lower-case
  to \<open>completed\<close> is \<open>Failed\<close> in both. The remaining payloads have \<open>success: true\<close> and
  a status that is neither a string nor missing (a number, a boolean, an object): the
  polling server's transformation reports \<open>Failed\<close>, the relay server's raises a
  TypeError at \<open>status?.toLowerCase()\<close> and reports nothing. Whenever a transformation
  returns, the outcome is \<open>Success\<close> or \<open>Failed\<close>.
\<close>

theorem callback_success_only_when_explicit:
  "(relay_transformSwiftWalletCallbackToPayHero sw = Inr cb
      \<and> jget (jget cb ''response'') ''Status'' = JStr ''Success''
    \<longrightarrow> jget sw ''success'' = JBool True
        \<and> (\<exists>s. jget sw ''status'' = JStr s \<and> toLowerCase s = ''completed''))
   \<and> (jget (jget (polling_transformSwiftWalletCallbackToPayHero sw) ''response'') ''Status''
         = JStr ''Success''
    \<longrightarrow> jget sw ''success'' = JBool True
        \<and> (\<exists>s. jget sw ''status'' = JStr s \<and> toLowerCase s = ''completed''))
   \<and> (jget sw ''success'' \<noteq> JBool True
        \<or> jget sw ''status'' = JUndefined \<or> jget sw ''status'' = JNull
        \<or> (\<exists>s. jget sw ''status'' = JStr s \<and> toLowerCase s \<noteq> ''completed'')
    \<longrightarrow> relay_transformSwiftWalletCallbackToPayHero sw = Inr (payHeroCallback sw ''Failed'')
        \<and> polling_transformSwiftWalletCallbackToPayHero sw = payHeroCallback sw ''Failed'')
   \<and> (jget sw ''success'' = JBool True
        \<and> (\<exists>s. jget sw ''status'' = JStr s \<and> toLowerCase s = ''completed'')
    \<longrightarrow> relay_transformSwiftWalletCallbackToPayHero sw = Inr (payHeroCallback sw ''Success''))
   \<and> (jget sw ''success'' = JBool True
        \<and> jget sw ''status'' \<noteq> JUndefined \<and> jget sw ''status'' \<noteq> JNull
        \<and> (\<forall>s. jget sw ''status'' \<noteq> JStr s)
    \<longrightarrow> relay_transformSwiftWalletCallbackToPayHero sw = Inl TypeError
        \<and> polling_transformSwiftWalletCallbackToPayHero sw = payHeroCallback sw ''Failed'')
   \<and> (relay_transformSwiftWalletCallbackToPayHero sw = Inr cb
    \<longrightarrow> jget (jget cb ''response'') ''Status'' = JStr ''Success''
        \<or> jget (jget cb ''response'') ''Status'' = JStr ''Failed'')
   \<and> (jget (jget (polling_transformSwiftWalletCallbackToPayHero sw) ''response'') ''Status''
         = JStr ''Success''
      \<or> jget (jget (polling_transformSwiftWalletCallbackToPayHero sw) ''response'') ''Status''
         = JStr ''Failed'')"
proof (intro conjI impI)
  assume a: "relay_transformSwiftWalletCallbackToPayHero sw = Inr cb
      \<and> jget (jget cb ''response'') ''Status'' = JStr ''Success''"
  then show "jget sw ''success'' = JBool True"
    by (auto simp: relay_transformSwiftWalletCallbackToPayHero_def relay_Status_def
             split: if_splits sum.splits)
  from a show "\<exists>s. jget sw ''status'' = JStr s \<and> toLowerCase s = ''completed''"
    by (auto simp: relay_transformSwiftWalletCallbackToPayHero_def relay_Status_def
             split: if_splits sum.splits dest: opt_toLowerCase_JStr)
next
  assume a: "jget (jget (polling_transformSwiftWalletCallbackToPayHero sw) ''response'') ''Status''
         = JStr ''Success''"
  then show "jget sw ''success'' = JBool True"
    by (auto simp: polling_transformSwiftWalletCallbackToPayHero_def polling_Status_def
             split: if_splits)
  from a show "\<exists>s. jget sw ''status'' = JStr s \<and> toLowerCase s = ''completed''"
    by (auto simp: polling_transformSwiftWalletCallbackToPayHero_def polling_Status_def
             split: if_splits)
next
  assume a: "jget sw ''success'' \<noteq> JBool True
        \<or> jget sw ''status'' = JUndefined \<or> jget sw ''status'' = JNull
        \<or> (\<exists>s. jget sw ''status'' = JStr s \<and> toLowerCase s \<noteq> ''completed'')"
  then show "relay_transformSwiftWalletCallbackToPayHero sw = Inr (payHeroCallback sw ''Failed'')"
    by (auto simp: relay_transformSwiftWalletCallbackToPayHero_def relay_Status_def)
  from a show "polling_transformSwiftWalletCallbackToPayHero sw = payHeroCallback sw ''Failed''"
    by (auto simp: polling_transformSwiftWalletCallbackToPayHero_def polling_Status_def)
next
  assume "jget sw ''success'' = JBool True
        \<and> (\<exists>s. jget sw ''status'' = JStr s \<and> toLowerCase s = ''completed'')"
  then show "relay_transformSwiftWalletCallbackToPayHero sw = Inr (payHeroCallback sw ''Success'')"
    by (auto simp: relay_transformSwiftWalletCallbackToPayHero_def relay_Status_def)
next
  assume a: "jget sw ''success'' = JBool True
        \<and> jget sw ''status'' \<noteq> JUndefined \<and> jget sw ''status'' \<noteq> JNull
        \<and> (\<forall>s. jget sw ''status'' \<noteq> JStr s)"
  then show "relay_transformSwiftWalletCallbackToPayHero sw = Inl TypeError"
    by (cases "jget sw ''status''")
       (simp_all add: relay_transformSwiftWalletCallbackToPayHero_def relay_Status_def)
  from a show "polling_transformSwiftWalletCallbackToPayHero sw = payHeroCallback sw ''Failed''"
    by (simp add: polling_transformSwiftWalletCallbackToPayHero_def polling_Status_def)
next
  assume "relay_transformSwiftWalletCallbackToPayHero sw = Inr cb"
  then show "jget (jget cb ''response'') ''Status'' = JStr ''Success''
        \<or> jget (jget cb ''response'') ''Status'' = JStr ''Failed''"
    by (auto simp: relay_transformSwiftWalletCallbackToPayHero_def relay_Status_def
             split: if_splits sum.splits)
next
  show "jget (jget (polling_transformSwiftWalletCallbackToPayHero sw) ''response'') ''Status''
         = JStr ''Success''
      \<or> jget (jget (polling_transformSwiftWalletCallbackToPayHero sw) ''response'') ''Status''
         = JStr ''Failed''"
    by (simp add: polling_transformSwiftWalletCallbackToPayHero_def polling_Status_def)
qed

lemma toLowerCase_Completed: "toLowerCase ''Completed'' = ''completed''"
  by (simp add: toLowerCase_def lower_char_def)

theorem callback_success_only_when_explicit_witness:
  "jget (JObj [(''success'', JBool True), (''status'', JStr ''Completed'')]) ''success''
        = JBool True
   \<and> jget (JObj [(''success'', JBool True), (''status'', JStr ''Completed'')]) ''status''
        = JStr ''Completed''
   \<and> toLowerCase ''Completed'' = ''completed''
   \<and> relay_transformSwiftWalletCallbackToPayHero
       (JObj [(''success'', JBool True), (''status'', JStr ''Completed'')])
     = Inr (payHeroCallback (JObj [(''success'', JBool True), (''status'', JStr ''Completed'')])
              ''Success'')
   \<and> jget (JObj []) ''success'' = JUndefined
   \<and> relay_transformSwiftWalletCallbackToPayHero (JObj [])
        = Inr (payHeroCallback (JObj []) ''Failed'')
   \<and> polling_transformSwiftWalletCallbackToPayHero (JObj []) = payHeroCallback (JObj []) ''Failed''
   \<and> jget (JObj [(''success'', JBool True), (''status'', JNum 5)]) ''status'' = JNum 5
   \<and> relay_transformSwiftWalletCallbackToPayHero
        (JObj [(''success'', JBool True), (''status'', JNum 5)]) = Inl TypeError
   \<and> polling_transformSwiftWalletCallbackToPayHero
        (JObj [(''success'', JBool True), (''status'', JNum 5)])
        = payHeroCallback (JObj [(''success'', JBool True), (''status'', JNum 5)]) ''Failed''"
  using callback_success_only_when_explicit
          [of "JObj [(''success'', JBool True), (''status'', JStr ''Completed'')]"]
        callback_success_only_when_explicit[of "JObj []"]
        callback_success_only_when_explicit
          [of "JObj [(''success'', JBool True), (''status'', JNum 5)]"]
  by (simp add: toLowerCase_Completed)

section \<open>Facts about the reference generator\<close>

lemma toString_last: "toString n \<noteq> [] \<and> last (toString n) = digit_char (n mod 10)"
  by (subst toString.simps, subst (2) toString.simps) simp

lemma toString_step: "10 \<le> n \<Longrightarrow> toString n = toString (n div 10) @ [digit_char (n mod 10)]"
  by (subst toString.simps) simp

lemma toString_three:
  assumes "1000 \<le> n"
  shows "toString n = toString (n div 1000)
           @ [digit_char (n div 100 mod 10), digit_char (n div 10 mod 10), digit_char (n mod 10)]"
proof -
  have a: "10 \<le> n" and b: "10 \<le> n div 10" and c: "10 \<le> n div 10 div 10"
    using assms by auto
  have d: "n div 10 div 10 = n div 100" "n div 10 div 10 div 10 = n div 1000"
    by (simp_all add: div_mult2_eq[symmetric])
  show ?thesis
    using toString_step[OF a] toString_step[OF b] toString_step[OF c] d by simp
qed

lemma slice_last_four:
  assumes "1000 \<le> n"
  shows "slice_last 4 (toString n) =
           [digit_char (n div 1000 mod 10), digit_char (n div 100 mod 10),
            digit_char (n div 10 mod 10), digit_char (n mod 10)]"
proof -
  obtain xs x where xs: "toString (n div 1000) = xs @ [x]"
    and x: "x = digit_char (n div 1000 mod 10)"
    using toString_last[of "n div 1000"] by (metis append_butlast_last_id)
  show ?thesis
    unfolding toString_three[OF assms] xs slice_last_def using x by simp
qed

lemma mod_digits:
  "(n mod 10000) div 1000 = n div 1000 mod 10"
  "(n mod 10000) div 100 mod 10 = n div 100 mod 10"
  "(n mod 10000) div 10 mod 10 = n div 10 mod 10"
  "(n mod 10000) mod 10 = n mod (10::nat)"
proof -
  show "(n mod 10000) div 1000 = n div 1000 mod 10"
    using mod_mult2_eq[of n 1000 10] by simp
  show "(n mod 10000) div 100 mod 10 = n div 100 mod 10"
    using mod_mult2_eq[of n 100 100] mod_mod_cancel[of 10 100 "n div 100"] by simp
  show "(n mod 10000) div 10 mod 10 = n div 10 mod 10"
    using mod_mult2_eq[of n 10 1000] mod_mod_cancel[of 10 1000 "n div 10"] by simp
  show "(n mod 10000) mod 10 = n mod (10::nat)"
    by (simp add: mod_mod_cancel)
qed

text \<open>
  C9. The generated reference is the first (at most four) letters and digits of the
  caller's reference followed by the last four characters of the decimal timestamp; it
  is never longer than eight characters, and for every timestamp of at least four digits
  (any time after the first second of 1970) the suffix is the four decimal digits of the
  timestamp modulo 10000, leading zeros kept.
\<close>

theorem uniqueRef_shape:
  "length (uniqueRef_of ref now) \<le> 8
   \<and> (1000 \<le> now \<longrightarrow>
        uniqueRef_of ref now =
          take 4 (filter isAlnum ref)
          @ [digit_char ((now mod 10000) div 1000), digit_char ((now mod 10000) div 100 mod 10),
             digit_char ((now mod 10000) div 10 mod 10), digit_char ((now mod 10000) mod 10)])"
proof (intro conjI impI)
  show "length (uniqueRef_of ref now) \<le> 8"
    by (simp add: uniqueRef_of_def slice_last_def)
next
  assume "1000 \<le> now"
  then show "uniqueRef_of ref now =
          take 4 (filter isAlnum ref)
          @ [digit_char ((now mod 10000) div 1000), digit_char ((now mod 10000) div 100 mod 10),
             digit_char ((now mod 10000) div 10 mod 10), digit_char ((now mod 10000) mod 10)]"
    by (simp add: uniqueRef_of_def slice_last_four mod_digits)
qed

theorem uniqueRef_shape_witness:
  "(1000::nat) \<le> 1712345670042 \<and> uniqueRef_of ''ACT-123 x'' 1712345670042 = ''ACT10042''
   \<and> length (uniqueRef_of ''ACT-123 x'' 1712345670042) \<le> 8"
  using uniqueRef_shape[of "''ACT-123 x''" 1712345670042]
  by (simp add: isAlnum_def digit_char_def)

section \<open>Facts about the retry loop\<close>

lemma retry_loop_1:
  "retry_loop post 1 tr =
     (case post 1 of
        Resolved c b \<Rightarrow> (Broke c b, tr @ [Post 1])
      | Thrown e \<Rightarrow> retry_loop post 2 (tr @ [Post 1, Sleep 2000]))"
  by (subst retry_loop.simps) (simp split: axios_result.splits del: One_nat_def)

lemma retry_loop_2:
  "retry_loop post 2 tr =
     (case post 2 of
        Resolved c b \<Rightarrow> (Broke c b, tr @ [Post 2])
      | Thrown e \<Rightarrow> retry_loop post 3 (tr @ [Post 2, Sleep 2000]))"
  by (subst retry_loop.simps) (simp split: axios_result.splits)

lemma retry_loop_3:
  "retry_loop post 3 tr =
     (case post 3 of
        Resolved c b \<Rightarrow> (Broke c b, tr @ [Post 3])
      | Thrown e \<Rightarrow> (Threw e, tr @ [Post 3]))"
  by (subst retry_loop.simps) (simp split: axios_result.splits)

lemma retry_loop_unfold:
  "retry_loop post 1 [] =
     (case post 1 of
        Resolved c b \<Rightarrow> (Broke c b, [Post 1])
      | Thrown e1 \<Rightarrow>
          (case post 2 of
             Resolved c b \<Rightarrow> (Broke c b, [Post 1, Sleep 2000, Post 2])
           | Thrown e2 \<Rightarrow>
               (case post 3 of
                  Resolved c b \<Rightarrow>
                    (Broke c b, [Post 1, Sleep 2000, Post 2, Sleep 2000, Post 3])
                | Thrown e3 \<Rightarrow>
                    (Threw e3, [Post 1, Sleep 2000, Post 2, Sleep 2000, Post 3]))))"
  unfolding retry_loop_1 retry_loop_2 retry_loop_3
  by (simp split: axios_result.splits)

section \<open>Facts about /api/pay\<close>

text \<open>
  C10. When the body's \<open>phone\<close> is not a string (missing, \<open>null\<close>, a number, anything
  else), \<open>/api/pay\<close> raises a TypeError at \<open>phone.startsWith\<close>, in the relay server and
  in the PayHero and SwiftWallet polling servers alike: the state is as before (nothing registered, no provider
  called) and there is no reply, so in particular not the \<open>Failure\<close> body of the
  \<open>catch\<close> branch.
\<close>

theorem pay_without_phone_raises:
  assumes "\<forall>s. jget body ''phone'' \<noteq> JStr s"
  shows "relay_pay body now st = Inl TypeError
     \<and> relay_step (Pay body now) st = st
     \<and> payhero_pay body post pst = Inl TypeError
     \<and> swift_pay body post pst = Inl TypeError"
  using assms
  by (cases "jget body ''phone''") (simp_all add: relay_pay_def payhero_pay_def swift_pay_def)

theorem pay_without_phone_raises_witness:
  "jget (JObj [(''amount'', JNum 500), (''reference'', JStr ''ACT123'')]) ''phone'' = JUndefined
   \<and> relay_pay (JObj [(''amount'', JNum 500), (''reference'', JStr ''ACT123'')])
        1712345670042 relay_init = Inl TypeError
   \<and> payhero_pay (JObj [(''amount'', JNum 500), (''reference'', JStr ''ACT123'')])
        (provider_accepts 1)
        polling_init = Inl TypeError
   \<and> swift_pay (JObj [(''amount'', JNum 500), (''reference'', JStr ''ACT123'')])
        (provider_accepts 1) polling_init = Inl TypeError"
  using pay_without_phone_raises
    [of "JObj [(''amount'', JNum 500), (''reference'', JStr ''ACT123'')]"
        1712345670042 relay_init "provider_accepts 1"
        polling_init]
  by simp

lemma relay_pay_Inr:
  assumes "relay_pay body now st = Inr (a, st1)"
  shows "a = next_free st
     \<and> transactionStatuses st1 = (transactionStatuses st)(uniqueRef (heap st1 a) \<mapsto> a)
     \<and> heap st1 = (heap st)(a := heap st1 a)
     \<and> next_free st1 = a + 1
     \<and> \<not> resolved (heap st1 a) \<and> res (heap st1 a) = []
     \<and> timeouts st1 = timeouts st \<and> payment_callbacks st1 = payment_callbacks st
     \<and> (\<exists>ph ref. jget body ''phone'' = JStr ph \<and> jget body ''reference'' = JStr ref
           \<and> uniqueRef (heap st1 a) = uniqueRef_of ref now)"
  using assms
  by (auto simp: relay_pay_def Let_def split: json.splits)

lemma resume_initiated:
  assumes "initiated (gateway (heap st a)) post"
  shows "\<exists>d st'. relay_pay_resume a post now st = arm a d now st' \<and> heap st' = heap st
           \<and> transactionStatuses st' = transactionStatuses st
           \<and> next_free st' = next_free st \<and> timeouts st' = timeouts st
           \<and> payment_callbacks st' = payment_callbacks st"
proof (cases "gateway (heap st a)")
  case payhero
  then obtain c d where "post 1 = Resolved c d"
    using assms by (auto simp: initiated_def split: axios_result.splits)
  then have "relay_pay_resume a post now st = arm a d now st"
    using payhero by (simp add: relay_pay_resume_def)
  then show ?thesis by blast
next
  case swiftwallet
  obtain r trace where rt: "retry_loop post 1 [] = (r, trace)" by fastforce
  then obtain c d where "r = Broke c d"
    using assms swiftwallet by (auto simp: initiated_def split: loop_result.splits)
  then have "relay_pay_resume a post now st = arm a d now (log_retries trace a st)"
    using swiftwallet rt by (simp add: relay_pay_resume_def)
  moreover have "heap (log_retries trace a st) = heap st"
    "transactionStatuses (log_retries trace a st) = transactionStatuses st"
    "next_free (log_retries trace a st) = next_free st"
    "timeouts (log_retries trace a st) = timeouts st"
    "payment_callbacks (log_retries trace a st) = payment_callbacks st"
    by (simp_all add: log_retries_def)
  ultimately show ?thesis by blast
qed

lemma resumed_step:
  assumes "initiated (gateway (heap st a)) post" and "a < next_free st"
  shows "\<exists>d. heap (relay_step (PayResumed a post now) st)
              = (heap st)(a := (heap st a)\<lparr>providerResponse := d\<rparr>)
     \<and> transactionStatuses (relay_step (PayResumed a post now) st)
          = (transactionStatuses st)(uniqueRef (heap st a) \<mapsto> a)
     \<and> next_free (relay_step (PayResumed a post now) st) = next_free st
     \<and> timeouts (relay_step (PayResumed a post now) st)
          = timeouts st @ [(now + 120000, uniqueRef (heap st a), gateway (heap st a))]
     \<and> payment_callbacks (relay_step (PayResumed a post now) st) = payment_callbacks st"
proof -
  obtain d st' where r: "relay_pay_resume a post now st = arm a d now st'"
    and st': "heap st' = heap st" "transactionStatuses st' = transactionStatuses st"
      "next_free st' = next_free st" "timeouts st' = timeouts st"
      "payment_callbacks st' = payment_callbacks st"
    using resume_initiated[OF assms(1), of now] by blast
  show ?thesis
    using r st' assms(2) by (intro exI[of _ d]) (simp add: arm_def Let_def)
qed

text \<open>
  Whatever the provider does, the continuation of the request at \<open>b\<close> changes no other
  request and not the reference of its own, stores nothing under another key than
  that reference, and inserts no row.
\<close>

lemma resume_effect:
  "\<exists>c. heap (relay_pay_resume b post now st) = (heap st)(b := c)
     \<and> uniqueRef c = uniqueRef (heap st b)
     \<and> (transactionStatuses (relay_pay_resume b post now st) = transactionStatuses st
          \<or> transactionStatuses (relay_pay_resume b post now st)
               = (transactionStatuses st)(uniqueRef (heap st b) \<mapsto> b))
     \<and> next_free (relay_pay_resume b post now st) = next_free st
     \<and> payment_callbacks (relay_pay_resume b post now st) = payment_callbacks st"
proof (cases "gateway (heap st b)")
  case payhero
  then show ?thesis
    by (cases "post 1")
       (auto simp: relay_pay_resume_def arm_def res_json_def Let_def simp del: One_nat_def)
next
  case swiftwallet
  obtain r trace where rt: "retry_loop post 1 [] = (r, trace)" by fastforce
  show ?thesis
    using swiftwallet rt
    by (cases r)
       (auto simp: relay_pay_resume_def arm_def res_json_def log_retries_def Let_def
             simp del: One_nat_def)
qed

lemma example_ref: "uniqueRef_of ''ACT123'' 1712345670042 = ''ACT10042''"
  by (simp add: uniqueRef_of_def isAlnum_def slice_last_def toString.simps digit_char_def)

lemma example_pay:
  "relay_pay example_body 1712345670042 relay_init =
     Inr (0, relay_init\<lparr>transactionStatuses := [''ACT10042'' \<mapsto> 0],
               heap := (heap relay_init)(0 :=
                  \<lparr>phone = ''0712345678'', amount = JNum 500, reference = ''ACT123'',
                   user_id = JUndefined, uniqueRef = ''ACT10042'', gateway = swiftwallet,
                   resolved = False, res = [], providerResponse = JUndefined\<rparr>),
               next_free := 1,
               outbound := [(swiftwallet, ''ACT10042'', ''2540712345678'')]\<rparr>)"
  by (simp add: relay_pay_def example_body_def example_ref Let_def relay_init_def
        startsWith_def toLowerCase_def lower_char_def fullPhone_def)

lemma example_held_eq:
  "example_held =
     relay_init\<lparr>transactionStatuses := [''ACT10042'' \<mapsto> 0],
               heap := (heap relay_init)(0 :=
                  \<lparr>phone = ''0712345678'', amount = JNum 500, reference = ''ACT123'',
                   user_id = JUndefined, uniqueRef = ''ACT10042'', gateway = swiftwallet,
                   resolved = False, res = [],
                   providerResponse = JObj [(''status'', JStr ''initiated'')]\<rparr>),
               next_free := 1,
               outbound := [(swiftwallet, ''ACT10042'', ''2540712345678'')],
               timeouts := [(1712345790900, ''ACT10042'', swiftwallet)]\<rparr>"
proof -
  have s1: "relay_step (Pay example_body 1712345670042) relay_init =
     relay_init\<lparr>transactionStatuses := [''ACT10042'' \<mapsto> 0],
               heap := (heap relay_init)(0 :=
                  \<lparr>phone = ''0712345678'', amount = JNum 500, reference = ''ACT123'',
                   user_id = JUndefined, uniqueRef = ''ACT10042'', gateway = swiftwallet,
                   resolved = False, res = [], providerResponse = JUndefined\<rparr>),
               next_free := 1,
               outbound := [(swiftwallet, ''ACT10042'', ''2540712345678'')]\<rparr>"
    by (simp add: example_pay)
  show ?thesis
    unfolding example_held_def relay_run_def fold_simps o_apply s1
    by (simp add: relay_pay_resume_def retry_loop_1 provider_accepts_def arm_def
        log_retries_def posts_def Let_def relay_init_def del: One_nat_def)
qed

lemma example_held_facts:
  "transactionStatuses example_held ''ACT10042'' = Some 0"
  "\<not> resolved (heap example_held 0)"
  "res (heap example_held 0) = []"
  "payment_callbacks example_held = []"
  by (simp_all add: example_held_eq relay_init_def)

lemma example_pay_registered:
  "relay_pay example_body 1712345670042 relay_init = Inr (0, example_registered)"
  "uniqueRef (heap example_registered 0) = ''ACT10042''"
  "gateway (heap example_registered 0) = swiftwallet"
  by (simp_all add: example_registered_def relay_pay_def example_body_def example_ref Let_def
        relay_init_def startsWith_def toLowerCase_def lower_char_def)

lemma example_registered_facts:
  "transactionStatuses example_registered ''ACT10042'' = Some 0"
  "\<not> resolved (heap example_registered 0)" "res (heap example_registered 0) = []"
  unfolding example_registered_def relay_step.simps example_pay
  by simp_all



lemma initiated_accepts_payhero: "initiated payhero provider_accepts"
  by (simp add: initiated_def provider_accepts_def)


lemma other_ref: "uniqueRef_of ''PAYP77'' 1712345671234 = ''PAYP1234''"
  by (simp add: uniqueRef_of_def isAlnum_def slice_last_def toString.simps digit_char_def)

section \<open>Facts about the initiation\<close>







section \<open>Facts about the relay server: the callback handler\<close>

lemma jor_same [simp]: "jor a (jor a a) = a" "jor a a = a"
  by (simp_all add: jor_def)

lemma relay_Status_cases:
  "relay_Status sw = Inr s \<Longrightarrow> s = ''Success'' \<or> s = ''Failed''"
  by (auto simp: relay_Status_def split: if_splits sum.splits)

lemma toUpperCase_status [simp]:
  "toUpperCase ''Success'' = ''SUCCESS''" "toUpperCase ''Failed'' = ''FAILED''"
  by (simp_all add: toUpperCase_def upper_char_def)

lemma relay_transform_Status:
  "relay_transformSwiftWalletCallbackToPayHero sw = Inr data
   \<Longrightarrow> \<exists>s. relay_Status sw = Inr s \<and> data = payHeroCallback sw s"
  by (auto simp: relay_transformSwiftWalletCallbackToPayHero_def split: sum.splits)

lemma store_callback_fields [simp]:
  "transactionStatuses (store_callback ins row st) = transactionStatuses st"
  "heap (store_callback ins row st) = heap st"
  "next_free (store_callback ins row st) = next_free st"
  "timeouts (store_callback ins row st) = timeouts st"
  "outbound (store_callback ins row st) = outbound st"
  by (cases ins; simp add: store_callback_def)+

text \<open>
  The handler, spelled out. It raises when there is no body or when the transformation
  raises. Otherwise it sends 200, and the one thing it ever does to the state is the
  insert, which it reaches only when the map has no entry for the reference of the
  payload.
\<close>

lemma js_error_TypeError: "(e :: js_error) = TypeError"
  by (cases e) simp

lemma relay_callback_raises:
  "sw = JUndefined \<or> isl (relay_transformSwiftWalletCallbackToPayHero sw)
   \<Longrightarrow> relay_callback sw ins st = Inl TypeError"
  by (cases "relay_transformSwiftWalletCallbackToPayHero sw"; cases "sw = JUndefined")
     (auto simp: relay_callback_def js_error_TypeError)

lemma relay_callback_found:
  assumes "sw \<noteq> JUndefined" "relay_transformSwiftWalletCallbackToPayHero sw = Inr data"
    and "Map_get (transactionStatuses st) (jget sw ''external_reference'') = Some a"
  shows "relay_callback sw ins st = Inr (SendStatus 200, st)"
proof -
  obtain s where s: "relay_Status sw = Inr s" "data = payHeroCallback sw s"
    using relay_transform_Status[OF assms(2)] by blast
  have ne: "s \<noteq> []" using relay_Status_cases[OF s(1)] by auto
  show ?thesis
    using assms ne unfolding relay_callback_def s(2)
    by (simp add: jor_def Let_def logProcess_MEMORY_LOOKUP_def)
qed

lemma relay_callback_not_found:
  assumes "sw \<noteq> JUndefined" "relay_transformSwiftWalletCallbackToPayHero sw = Inr data"
    and "relay_Status sw = Inr s"
    and "Map_get (transactionStatuses st) (jget sw ''external_reference'') = None"
  shows "relay_callback sw ins st =
     Inr (SendStatus 200,
          store_callback ins
            (callback_row (jget sw ''external_reference'') data (JStr (toUpperCase s))) st)"
proof -
  have d: "data = payHeroCallback sw s"
    using relay_transform_Status[OF assms(2)] assms(3) by auto
  have ne: "s \<noteq> []" using relay_Status_cases[OF assms(3)] by auto
  show ?thesis
    using assms ne unfolding relay_callback_def d
    by (simp add: jor_def Let_def logProcess_MEMORY_LOOKUP_def notify_waiting_def)
qed

lemma webhook_cases:
  "relay_step (Webhook sw ins) st = st
   \<or> (Map_get (transactionStatuses st) (jget sw ''external_reference'') = None
       \<and> (\<exists>data status.
             relay_step (Webhook sw ins) st
               = store_callback ins
                   (callback_row (jget sw ''external_reference'') data status) st))"
proof (cases "sw = JUndefined \<or> isl (relay_transformSwiftWalletCallbackToPayHero sw)")
  case True
  then show ?thesis
    using relay_callback_raises[OF True] by (simp add: relay_step.simps(3))
next
  case False
  then obtain data where d: "sw \<noteq> JUndefined"
      "relay_transformSwiftWalletCallbackToPayHero sw = Inr data"
    by (cases "relay_transformSwiftWalletCallbackToPayHero sw") auto
  obtain s where s: "relay_Status sw = Inr s"
    using relay_transform_Status[OF d(2)] by blast
  show ?thesis
  proof (cases "Map_get (transactionStatuses st) (jget sw ''external_reference'')")
    case None
    show ?thesis
      using relay_callback_not_found[OF d s None, of ins] None
      by (auto simp: relay_step.simps(3))
  next
    case (Some a)
    show ?thesis
      using relay_callback_found[OF d Some, of ins] by (simp add: relay_step.simps(3))
  qed
qed

lemma webhook_fields [simp]:
  "transactionStatuses (relay_step (Webhook sw ins) st) = transactionStatuses st"
  "heap (relay_step (Webhook sw ins) st) = heap st"
  "next_free (relay_step (Webhook sw ins) st) = next_free st"
  "timeouts (relay_step (Webhook sw ins) st) = timeouts st"
  "outbound (relay_step (Webhook sw ins) st) = outbound st"
  using webhook_cases[of sw ins st] by auto

lemma callback_row_reference [simp]:
  "jget (callback_row x data status) ''external_reference'' = x"
  by (simp add: callback_row_def)

lemma webhook_rows:
  assumes "transactionStatuses st k = Some a"
  shows "filter (names k) (payment_callbacks (relay_step (Webhook sw ins) st))
           = filter (names k) (payment_callbacks st)"
proof -
  consider "relay_step (Webhook sw ins) st = st"
    | data status where
        "Map_get (transactionStatuses st) (jget sw ''external_reference'') = None"
        "relay_step (Webhook sw ins) st
           = store_callback ins (callback_row (jget sw ''external_reference'') data status) st"
    using webhook_cases[of sw ins st] by blast
  then show ?thesis
  proof cases
    case 1
    then show ?thesis by simp
  next
    case 2
    have "jget sw ''external_reference'' \<noteq> JStr k"
      using 2(1) assms by (auto simp: Map_get_def)
    then show ?thesis
      unfolding 2(2) by (cases ins) (simp_all add: store_callback_def names_def)
  qed
qed

section \<open>Facts about the relay server: one request\<close>

lemma pay_registered:
  assumes "registered st" "relay_pay body now st = Inr (a, st1)"
  shows "registered st1"
  unfolding registered_def
proof (intro allI impI)
  note f = relay_pay_Inr[OF assms(2)]
  fix k a' assume k: "transactionStatuses st1 k = Some a'"
  show "a' < next_free st1 \<and> uniqueRef (heap st1 a') = k"
  proof (cases "k = uniqueRef (heap st1 a)")
    case True
    then have "a' = a" using k f by simp
    then show ?thesis using f True by auto
  next
    case False
    then have old: "transactionStatuses st k = Some a'" using k f by simp
    then have lt: "a' < next_free st" and pr: "uniqueRef (heap st a') = k"
      using assms(1) by (auto simp: registered_def)
    from lt have "a' \<noteq> a" using f by simp
    then have "heap st1 a' = heap st a'" using f by (metis fun_upd_other)
    moreover have "a' < next_free st1" using lt f by simp
    ultimately show ?thesis using pr by simp
  qed
qed

lemma resume_registered:
  assumes "registered st" "b < next_free st"
  shows "registered (relay_pay_resume b post now st)"
proof -
  obtain c where c: "heap (relay_pay_resume b post now st) = (heap st)(b := c)"
      "uniqueRef c = uniqueRef (heap st b)"
      "transactionStatuses (relay_pay_resume b post now st) = transactionStatuses st
          \<or> transactionStatuses (relay_pay_resume b post now st)
               = (transactionStatuses st)(uniqueRef (heap st b) \<mapsto> b)"
      "next_free (relay_pay_resume b post now st) = next_free st"
    using resume_effect[of b post now st] by blast
  show ?thesis
    using c(3)
  proof
    assume "transactionStatuses (relay_pay_resume b post now st) = transactionStatuses st"
    then show ?thesis
      using assms c(1,2,4) by (auto simp: registered_def)
  next
    assume "transactionStatuses (relay_pay_resume b post now st)
               = (transactionStatuses st)(uniqueRef (heap st b) \<mapsto> b)"
    then show ?thesis
      using assms c(1,2,4) by (auto simp: registered_def)
  qed
qed

lemma timeout_registered:
  assumes "registered st"
  shows "registered (relay_timeout uref gw st)"
  using assms
  by (auto simp: relay_timeout_def res_json_def registered_def split: option.splits)

text \<open>Every step keeps the map in order.\<close>

lemma step_registered:
  assumes "registered st"
  shows "registered (relay_step ev st)"
proof (cases ev)
  case (Pay body now)
  show ?thesis
  proof (cases "relay_pay body now st")
    case (Inl e)
    then show ?thesis using assms Pay by simp
  next
    case (Inr r)
    then obtain a st1 where "relay_pay body now st = Inr (a, st1)" by (cases r) auto
    then show ?thesis using pay_registered[OF assms] Pay by simp
  qed
next
  case (PayResumed b post now)
  then show ?thesis using resume_registered[OF assms] assms by simp
next
  case (Webhook sw ins)
  then show ?thesis using assms by (simp add: registered_def)
next
  case (Timeout uref gw)
  then show ?thesis using timeout_registered[OF assms] by simp
next
  case (StatusPoll x q)
  then show ?thesis using assms by simp
qed

text \<open>
  While the request at \<open>a\<close> waits under \<open>k\<close>, no event that is harmless to it changes
  that: the key still leads to the request, the request is as it was but for the
  provider's answer, and the store has gained no row for \<open>k\<close>.
\<close>

lemma step_waiting:
  assumes "registered st" "transactionStatuses st k = Some a" "gateway (heap st a) = gw"
    and "elsewhere k a st0 st" and "harmless k a gw st0 ev"
  shows "transactionStatuses (relay_step ev st) k = Some a
     \<and> elsewhere k a st0 (relay_step ev st)
     \<and> (\<exists>d. heap (relay_step ev st) a = (heap st a)\<lparr>providerResponse := d\<rparr>)
     \<and> filter (names k) (payment_callbacks (relay_step ev st))
          = filter (names k) (payment_callbacks st)"
proof -
  have a: "a < next_free st" "uniqueRef (heap st a) = k"
    using assms(1,2) by (auto simp: registered_def)
  have same: "\<exists>d. heap st a = (heap st a)\<lparr>providerResponse := d\<rparr>"
    by (intro exI[of _ "providerResponse (heap st a)"]) simp
  show ?thesis
  proof (cases ev)
    case (Pay body now)
    show ?thesis
    proof (cases "relay_pay body now st")
      case (Inl e)
      then show ?thesis using assms Pay same by simp
    next
      case (Inr r)
      then obtain a1 st1 where r: "relay_pay body now st = Inr (a1, st1)" by (cases r) auto
      note f = relay_pay_Inr[OF r]
      have ne: "uniqueRef (heap st1 a1) \<noteq> k" using f assms(5) Pay by auto
      have na: "a \<noteq> a1" using f a(1) by simp
      then have h: "heap st1 a = heap st a" using f by (metis fun_upd_other)
      have m: "transactionStatuses st1 k = Some a" using f ne assms(2) by simp
      have e: "elsewhere k a st0 st1"
        unfolding elsewhere_def
      proof (intro allI impI)
        fix b assume b: "b < next_free st1" "b \<noteq> a"
          "b < next_free st0 \<longrightarrow> uniqueRef (heap st0 b) \<noteq> k"
        show "uniqueRef (heap st1 b) \<noteq> k"
        proof (cases "b = a1")
          case True
          then show ?thesis using ne by simp
        next
          case False
          then have "b < next_free st" using b(1) f by simp
          moreover have "heap st1 b = heap st b" using f False by (metis fun_upd_other)
          ultimately show ?thesis using assms(4) b(2,3) by (simp add: elsewhere_def)
        qed
      qed
      have p: "payment_callbacks st1 = payment_callbacks st" using f by simp
      show ?thesis using Pay r m e h p same by simp
    qed
  next
    case (PayResumed b post now)
    show ?thesis
    proof (cases "b < next_free st")
      case False
      then show ?thesis using assms PayResumed same by simp
    next
      case lt: True
      show ?thesis
      proof (cases "b = a")
        case True
        then have i: "initiated (gateway (heap st a)) post"
          using assms(3,5) PayResumed by simp
        obtain d where d: "heap (relay_step (PayResumed a post now) st)
              = (heap st)(a := (heap st a)\<lparr>providerResponse := d\<rparr>)"
          "transactionStatuses (relay_step (PayResumed a post now) st)
              = (transactionStatuses st)(uniqueRef (heap st a) \<mapsto> a)"
          "next_free (relay_step (PayResumed a post now) st) = next_free st"
          "payment_callbacks (relay_step (PayResumed a post now) st) = payment_callbacks st"
          using resumed_step[OF i a(1), of now] by blast
        have e: "elsewhere k a st0 (relay_step (PayResumed a post now) st)"
          using assms(4) d(1,3) by (simp add: elsewhere_def)
        show ?thesis
          using PayResumed True d e a(2) by auto
      next
        case False
        have kb: "uniqueRef (heap st b) \<noteq> k"
          using assms(4,5) PayResumed False lt by (simp add: elsewhere_def)
        obtain c where c: "heap (relay_pay_resume b post now st) = (heap st)(b := c)"
          "uniqueRef c = uniqueRef (heap st b)"
          "transactionStatuses (relay_pay_resume b post now st) = transactionStatuses st
              \<or> transactionStatuses (relay_pay_resume b post now st)
                   = (transactionStatuses st)(uniqueRef (heap st b) \<mapsto> b)"
          "next_free (relay_pay_resume b post now st) = next_free st"
          "payment_callbacks (relay_pay_resume b post now st) = payment_callbacks st"
          using resume_effect[of b post now st] by blast
        have m: "transactionStatuses (relay_pay_resume b post now st) k = Some a"
          using c(3) kb assms(2) by auto
        have h: "heap (relay_pay_resume b post now st) a = heap st a"
          using c(1) False by simp
        have e: "elsewhere k a st0 (relay_pay_resume b post now st)"
          using assms(4) c(1,2,4) by (auto simp: elsewhere_def)
        show ?thesis
          using PayResumed lt m h e c(5) same by simp
      qed
    qed
  next
    case (Webhook sw ins)
    have e: "elsewhere k a st0 (relay_step (Webhook sw ins) st)"
      using assms(4) by (simp add: elsewhere_def)
    show ?thesis
      using Webhook assms(2) e webhook_rows[OF assms(2)] same by simp
  next
    case (Timeout uref g)
    then have ne: "uref \<noteq> k" using assms(5) by simp
    show ?thesis
    proof (cases "transactionStatuses st uref")
      case None
      then show ?thesis using Timeout assms same by (simp add: relay_timeout_def)
    next
      case (Some b)
      then have "uniqueRef (heap st b) = uref" using assms(1) by (auto simp: registered_def)
      then have nb: "b \<noteq> a" using a(2) ne by auto
      have e: "elsewhere k a st0 (relay_timeout uref g st)"
        using assms(4) Some by (auto simp: elsewhere_def relay_timeout_def res_json_def)
      show ?thesis
        using Timeout Some nb ne assms(2) e same
        by (auto simp: relay_timeout_def res_json_def)
    qed
  next
    case (StatusPoll x q)
    then show ?thesis using assms same by simp
  qed
qed

lemma run_waiting:
  assumes "registered st" "transactionStatuses st k = Some a" "gateway (heap st a) = gw"
    and "elsewhere k a st0 st" and "\<forall>ev\<in>set evs. harmless k a gw st0 ev"
  shows "registered (relay_run evs st)
     \<and> transactionStatuses (relay_run evs st) k = Some a
     \<and> elsewhere k a st0 (relay_run evs st)
     \<and> resolved (heap (relay_run evs st) a) = resolved (heap st a)
     \<and> res (heap (relay_run evs st) a) = res (heap st a)
     \<and> gateway (heap (relay_run evs st) a) = gw
     \<and> filter (names k) (payment_callbacks (relay_run evs st))
          = filter (names k) (payment_callbacks st)"
  using assms
proof (induction evs arbitrary: st)
  case Nil
  then show ?case by (simp add: relay_run_def)
next
  case (Cons ev evs)
  have h: "harmless k a gw st0 ev" and hs: "\<forall>ev\<in>set evs. harmless k a gw st0 ev"
    using Cons.prems(5) by simp_all
  note s = step_waiting[OF Cons.prems(1-4) h]
  obtain d where d: "heap (relay_step ev st) a = (heap st a)\<lparr>providerResponse := d\<rparr>"
    using s by blast
  have g: "gateway (heap (relay_step ev st) a) = gw" using d Cons.prems(3) by simp
  have r: "relay_run (ev # evs) st = relay_run evs (relay_step ev st)"
    by (simp add: relay_run_def)
  note ih = Cons.IH[OF step_registered[OF Cons.prems(1)] _ g _ hs]
  show ?case
    unfolding r using ih s d by simp
qed

text \<open>Once the request at \<open>a\<close> is resolved, only its own failed continuation writes to it.\<close>

lemma step_answered:
  assumes "a < next_free st" "resolved (heap st a)" "gateway (heap st a) = gw"
    and "\<not> rejected_continuation a gw ev"
  shows "a < next_free (relay_step ev st) \<and> resolved (heap (relay_step ev st) a)
     \<and> gateway (heap (relay_step ev st) a) = gw
     \<and> res (heap (relay_step ev st) a) = res (heap st a)"
proof (cases ev)
  case (Pay body now)
  show ?thesis
  proof (cases "relay_pay body now st")
    case (Inl e)
    then show ?thesis using assms Pay by simp
  next
    case (Inr r)
    then obtain a1 st1 where r: "relay_pay body now st = Inr (a1, st1)" by (cases r) auto
    note f = relay_pay_Inr[OF r]
    have "a \<noteq> a1" using f assms(1) by simp
    then have "heap st1 a = heap st a" using f by (metis fun_upd_other)
    then show ?thesis using Pay r f assms by simp
  qed
next
  case (PayResumed b post now)
  show ?thesis
  proof (cases "b < next_free st")
    case False
    then show ?thesis using assms PayResumed by simp
  next
    case lt: True
    show ?thesis
    proof (cases "b = a")
      case True
      then have i: "initiated (gateway (heap st a)) post"
        using assms(3,4) PayResumed by simp
      obtain d where "heap (relay_step (PayResumed a post now) st)
              = (heap st)(a := (heap st a)\<lparr>providerResponse := d\<rparr>)"
          "next_free (relay_step (PayResumed a post now) st) = next_free st"
        using resumed_step[OF i assms(1), of now] by blast
      then show ?thesis using PayResumed True assms by simp
    next
      case False
      obtain c where "heap (relay_pay_resume b post now st) = (heap st)(b := c)"
          "next_free (relay_pay_resume b post now st) = next_free st"
        using resume_effect[of b post now st] by blast
      then show ?thesis using PayResumed lt False assms by simp
    qed
  qed
next
  case (Webhook sw ins)
  then show ?thesis using assms by simp
next
  case (Timeout uref g)
  then show ?thesis
    using assms by (auto simp: relay_timeout_def res_json_def split: option.splits)
next
  case (StatusPoll x q)
  then show ?thesis using assms by simp
qed

lemma run_answered:
  assumes "a < next_free st" "resolved (heap st a)" "gateway (heap st a) = gw"
    and "\<forall>ev\<in>set evs. \<not> rejected_continuation a gw ev"
  shows "res (heap (relay_run evs st) a) = res (heap st a)"
  using assms
proof (induction evs arbitrary: st)
  case Nil
  then show ?case by (simp add: relay_run_def)
next
  case (Cons ev evs)
  have h: "\<not> rejected_continuation a gw ev"
    and hs: "\<forall>ev\<in>set evs. \<not> rejected_continuation a gw ev"
    using Cons.prems(4) by simp_all
  note s = step_answered[OF Cons.prems(1-3) h]
  have r: "relay_run (ev # evs) st = relay_run evs (relay_step ev st)"
    by (simp add: relay_run_def)
  show ?case
    unfolding r using Cons.IH[of "relay_step ev st"] s hs by simp
qed

lemma elsewhere_refl: "elsewhere k a st st"
  by (simp add: elsewhere_def)

lemma timeout_body_fields [simp]:
  "jget (timeout_body uref gw) ''success'' = JBool False"
  "jget (timeout_body uref gw) ''status'' = JStr ''TIMEOUT''"
  "jget (timeout_body uref gw) ''external_reference'' = JStr uref"
  by (simp_all add: timeout_body_def)

lemma timer_fires:
  assumes "transactionStatuses st k = Some a" "\<not> resolved (heap st a)" "res (heap st a) = []"
  shows "res (heap (relay_timeout k gw st) a) = [Json 200 (timeout_body k gw)]"
    "resolved (heap (relay_timeout k gw st) a)"
    "transactionStatuses (relay_timeout k gw st) k = None"
    "next_free (relay_timeout k gw st) = next_free st"
    "gateway (heap (relay_timeout k gw st) a) = gateway (heap st a)"
  using assms by (simp_all add: relay_timeout_def res_json_def)

lemma relay_run_append: "relay_run (xs @ ys) st = relay_run ys (relay_run xs st)"
  by (simp add: relay_run_def)

lemma relay_run_Cons: "relay_run (ev # evs) st = relay_run evs (relay_step ev st)"
  by (simp add: relay_run_def)

text \<open>
  C1, as the code has it. A reference \<open>k\<close> is registered with a caller that waits
  (unresolved, nothing written to its response yet). Until a timer for \<open>k\<close> fires, the
  caller keeps waiting whatever webhooks arrive: a webhook that names \<open>k\<close> finds the
  request, raises at the log line of the lookup and ends in the \<open>catch\<close>, so the
  provider gets its 200 (or the handler raised before the \<open>try\<close>) and nothing else
  happens; the caller is not answered, the key stays, and no row for \<open>k\<close> reaches
  \<open>payment_callbacks\<close>. The first timer for \<open>k\<close> answers the caller with the
  \<open>TIMEOUT\<close> body, and nothing that follows writes to that response again: the caller
  is answered exactly once, by the timer. The other events of the schedule may be
  anything that does not reuse \<open>k\<close>; the request's own continuation is that of an
  accepted initiation.
\<close>

theorem held_request_answered_by_timer_only:
  assumes "registered st" and "transactionStatuses st k = Some a"
    and "\<not> resolved (heap st a)" and "res (heap st a) = []"
    and "\<forall>ev\<in>set pre. harmless k a (gateway (heap st a)) st ev"
    and "\<forall>ev\<in>set post. \<not> rejected_continuation a (gateway (heap st a)) ev"
  shows "res (heap (relay_run pre st) a) = []
     \<and> transactionStatuses (relay_run pre st) k = Some a
     \<and> filter (names k) (payment_callbacks (relay_run pre st))
          = filter (names k) (payment_callbacks st)
     \<and> (jget sw ''external_reference'' = JStr k \<longrightarrow>
          relay_step (Webhook sw ins) (relay_run pre st) = relay_run pre st
          \<and> (relay_callback sw ins (relay_run pre st) = Inr (SendStatus 200, relay_run pre st)
               \<or> relay_callback sw ins (relay_run pre st) = Inl TypeError))
     \<and> res (heap (relay_run (pre @ Timeout k gw # post) st) a)
          = [Json 200 (timeout_body k gw)]
     \<and> jget (timeout_body k gw) ''status'' = JStr ''TIMEOUT''"
proof -
  define st1 where "st1 = relay_run pre st"
  note w = run_waiting[OF assms(1,2) refl elsewhere_refl assms(5)]
  have w1: "registered st1" "transactionStatuses st1 k = Some a"
    "\<not> resolved (heap st1 a)" "res (heap st1 a) = []"
    "gateway (heap st1 a) = gateway (heap st a)"
    "filter (names k) (payment_callbacks st1) = filter (names k) (payment_callbacks st)"
    using w assms(3,4) by (simp_all add: st1_def)
  have lt: "a < next_free st1" using w1(1,2) by (auto simp: registered_def)
  have hook: "relay_step (Webhook sw ins) st1 = st1
     \<and> (relay_callback sw ins st1 = Inr (SendStatus 200, st1)
          \<or> relay_callback sw ins st1 = Inl TypeError)"
    if x: "jget sw ''external_reference'' = JStr k"
  proof (cases "sw = JUndefined \<or> isl (relay_transformSwiftWalletCallbackToPayHero sw)")
    case True
    then show ?thesis
      using relay_callback_raises[OF True] by (simp add: relay_step.simps(3))
  next
    case False
    then obtain data where d: "sw \<noteq> JUndefined"
        "relay_transformSwiftWalletCallbackToPayHero sw = Inr data"
      by (cases "relay_transformSwiftWalletCallbackToPayHero sw") auto
    have "Map_get (transactionStatuses st1) (jget sw ''external_reference'') = Some a"
      using x w1(2) by (simp add: Map_get_def)
    then show ?thesis
      using relay_callback_found[OF d, of st1 a ins] by (simp add: relay_step.simps(3))
  qed
  define st2 where "st2 = relay_timeout k gw st1"
  note t = timer_fires[OF w1(2,3,4), of gw]
  have t2: "a < next_free st2" "resolved (heap st2 a)"
    "gateway (heap st2 a) = gateway (heap st a)"
    "res (heap st2 a) = [Json 200 (timeout_body k gw)]"
    using t lt w1(5) by (simp_all add: st2_def)
  have "res (heap (relay_run post st2) a) = [Json 200 (timeout_body k gw)]"
    using run_answered[OF t2(1,2,3) assms(6)] t2(4) by simp
  then have fin: "res (heap (relay_run (pre @ Timeout k gw # post) st) a)
          = [Json 200 (timeout_body k gw)]"
    by (simp add: relay_run_append relay_run_Cons st2_def st1_def)
  show ?thesis
    using w1(2,4,6) hook fin unfolding st1_def by simp
qed

lemma example_webhook_transform:
  "relay_transformSwiftWalletCallbackToPayHero example_webhook
     = Inr (payHeroCallback example_webhook ''Success'')"
  "relay_Status example_webhook = Inr ''Success''"
  "jget example_webhook ''external_reference'' = JStr ''ACT10042''"
  "example_webhook \<noteq> JUndefined"
  by (simp_all add: relay_transformSwiftWalletCallbackToPayHero_def relay_Status_def
        example_webhook_def)

lemma example_held_request:
  "uniqueRef (heap example_held 0) = ''ACT10042''"
  "gateway (heap example_held 0) = swiftwallet"
  "next_free example_held = 1"
  by (simp_all add: example_held_eq relay_init_def)

lemma registered_init: "registered relay_init"
  by (simp add: registered_def relay_init_def)

lemma registered_example_held: "registered example_held"
  unfolding example_held_def relay_run_def fold_simps o_apply
  by (intro step_registered registered_init)

text \<open>
  The schedule of the failing input: the success webhook arrives while the caller
  waits, the timer fires, the provider delivers the webhook once more. The caller
  gets \<open>TIMEOUT\<close>; of the two webhooks only the late one is persisted.
\<close>

lemma example_late_webhook_stored:
  "payment_callbacks
     (relay_run [Webhook example_webhook DbOk, Timeout ''ACT10042'' swiftwallet,
                 Webhook example_webhook DbOk] example_held)
     = [callback_row (JStr ''ACT10042'') (payHeroCallback example_webhook ''Success'')
          (JStr ''SUCCESS'')]"
proof -
  have f: "Map_get (transactionStatuses example_held) (jget example_webhook ''external_reference'')
             = Some 0"
    by (simp add: example_webhook_transform Map_get_def example_held_facts)
  have s1: "relay_step (Webhook example_webhook DbOk) example_held = example_held"
    using relay_callback_found[OF example_webhook_transform(4,1) f, of DbOk]
    by (simp add: relay_step.simps(3))
  define st2 where "st2 = relay_timeout ''ACT10042'' swiftwallet example_held"
  have t: "transactionStatuses st2 ''ACT10042'' = None" "payment_callbacks st2 = []"
    by (simp_all add: st2_def relay_timeout_def res_json_def example_held_facts)
  have n: "Map_get (transactionStatuses st2) (jget example_webhook ''external_reference'')
             = None"
    by (simp add: example_webhook_transform Map_get_def t)
  have s3: "relay_step (Webhook example_webhook DbOk) st2
      = store_callback DbOk
          (callback_row (JStr ''ACT10042'') (payHeroCallback example_webhook ''Success'')
             (JStr ''SUCCESS'')) st2"
    using relay_callback_not_found[OF example_webhook_transform(4,1,2) n, of DbOk]
    by (simp add: example_webhook_transform relay_step.simps(3))
  show ?thesis
    by (simp add: relay_run_def s1 s3 t store_callback_def flip: st2_def)
qed

theorem held_request_answered_by_timer_only_witness:
  "transactionStatuses example_held ''ACT10042'' = Some 0
   \<and> \<not> resolved (heap example_held 0) \<and> res (heap example_held 0) = []
   \<and> harmless ''ACT10042'' 0 swiftwallet example_held (Webhook example_webhook DbOk)
   \<and> \<not> rejected_continuation 0 swiftwallet (Webhook example_webhook DbOk)
   \<and> res (heap (relay_run [Webhook example_webhook DbOk] example_held) 0) = []
   \<and> filter (names ''ACT10042'')
        (payment_callbacks (relay_run [Webhook example_webhook DbOk] example_held)) = []
   \<and> relay_callback example_webhook DbOk (relay_run [Webhook example_webhook DbOk] example_held)
        = Inr (SendStatus 200, relay_run [Webhook example_webhook DbOk] example_held)
   \<and> res (heap (relay_run [Webhook example_webhook DbOk, Timeout ''ACT10042'' swiftwallet,
                           Webhook example_webhook DbOk] example_held) 0)
        = [Json 200 (timeout_body ''ACT10042'' swiftwallet)]
   \<and> payment_callbacks
        (relay_run [Webhook example_webhook DbOk, Timeout ''ACT10042'' swiftwallet,
                    Webhook example_webhook DbOk] example_held)
        = [callback_row (JStr ''ACT10042'') (payHeroCallback example_webhook ''Success'')
             (JStr ''SUCCESS'')]"
proof -
  note t = held_request_answered_by_timer_only
             [OF registered_example_held example_held_facts(1,2,3),
              of "[Webhook example_webhook DbOk]" "[Webhook example_webhook DbOk]"
                 example_webhook DbOk swiftwallet]
  have r: "relay_callback example_webhook DbOk (relay_run [Webhook example_webhook DbOk] example_held)
             \<noteq> Inl TypeError"
    by (cases "Map_get (transactionStatuses (relay_run [Webhook example_webhook DbOk] example_held))
                 (jget example_webhook ''external_reference'')")
       (simp_all add: relay_callback_not_found[OF example_webhook_transform(4,1,2)]
          relay_callback_found[OF example_webhook_transform(4,1)])
  show ?thesis
    using t r example_late_webhook_stored
    by (simp add: example_held_facts example_held_request example_webhook_transform)
qed

section \<open>Facts about the relay server: the registry\<close>

lemma pending_only_store_callback [simp]:
  "pending_only (store_callback ins row st) = pending_only st"
  by (simp add: pending_only_def)

lemma registered_store_callback [simp]:
  "registered (store_callback ins row st) = registered st"
  by (simp add: registered_def)

lemma webhook_pending_only:
  assumes "pending_only st"
  shows "pending_only (relay_step (Webhook sw ins) st)"
  using assms by (simp add: pending_only_def)

lemma timeout_pending_only:
  assumes "pending_only st"
  shows "pending_only (relay_step (Timeout uref gw) st)"
proof (cases "transactionStatuses st uref")
  case None
  then show ?thesis using assms by (simp add: relay_timeout_def)
next
  case (Some a)
  have p: "uniqueRef (heap st a) = uref" "\<not> resolved (heap st a)"
    using assms Some by (auto simp: pending_only_def)
  have other: "a' \<noteq> a" if "transactionStatuses st k' = Some a'" "k' \<noteq> uref" for k' a'
    using that assms p(1) by (auto simp: pending_only_def)
  show ?thesis
    using Some p assms other
    by (auto simp: relay_timeout_def res_json_def pending_only_def)
qed

lemma pay_pending_only:
  assumes "pending_only st"
  shows "pending_only (relay_step (Pay body now) st)"
proof (cases "relay_pay body now st")
  case (Inl e)
  then show ?thesis using assms by simp
next
  case (Inr r)
  then obtain a st1 where r: "relay_pay body now st = Inr (a, st1)" by (cases r) auto
  note f = relay_pay_Inr[OF r]
  have "pending_only st1"
    unfolding pending_only_def
  proof (intro allI impI)
    fix k a' assume k: "transactionStatuses st1 k = Some a'"
    show "a' < next_free st1 \<and> uniqueRef (heap st1 a') = k
        \<and> \<not> resolved (heap st1 a') \<and> res (heap st1 a') = []"
    proof (cases "k = uniqueRef (heap st1 a)")
      case True
      then have "a' = a" using k f by simp
      then show ?thesis using f True by auto
    next
      case False
      then have old: "transactionStatuses st k = Some a'" using k f by simp
      then have lt: "a' < next_free st" and pr: "uniqueRef (heap st a') = k"
        "\<not> resolved (heap st a')" "res (heap st a') = []"
        using assms by (auto simp: pending_only_def)
      from lt have "a' \<noteq> a" using f by simp
      then have "heap st1 a' = heap st a'" using f by (metis fun_upd_other)
      moreover have "a' < next_free st1" using lt f by simp
      ultimately show ?thesis using pr by simp
    qed
  qed
  then show ?thesis using r by simp
qed

lemma step_pending_only:
  assumes "pending_only st" "\<not> is_PayResumed ev"
  shows "pending_only (relay_step ev st)"
  using assms webhook_pending_only timeout_pending_only pay_pending_only
  by (cases ev) simp_all

lemma pending_only_init: "pending_only relay_init"
  by (simp add: pending_only_def relay_init_def)

lemma run_pending_only:
  assumes "pending_only st" "\<forall>ev\<in>set evs. \<not> is_PayResumed ev"
  shows "pending_only (relay_run evs st)"
  using assms
proof (induction evs arbitrary: st)
  case Nil
  then show ?case by (simp add: relay_run_def)
next
  case (Cons ev evs)
  have "pending_only (relay_step ev st)"
    using step_pending_only[of st ev] Cons.prems by simp
  then have "pending_only (relay_run evs (relay_step ev st))"
    using Cons.IH Cons.prems(2) by simp
  then show ?case by (simp add: relay_run_def)
qed

lemma update_memory_dom:
  "dom (transactionStatuses' st) \<subseteq> dom (transactionStatuses' (update_memory m x status st))"
  by (auto simp: update_memory_def split: json.splits sum.splits)

lemma polling_store_fields [simp]:
  "transactionStatuses' (store_callback' env row st) = transactionStatuses' st"
  "transactionStatuses' (create_transaction env row st) = transactionStatuses' st"
  by (auto simp: store_callback'_def create_transaction_def split: db_outcome.splits)

lemma swift_callback_dom:
  "dom (transactionStatuses' pst) \<subseteq> dom (transactionStatuses' (snd (swift_callback sw env pst)))"
proof -
  have a: "dom (transactionStatuses' pst) \<subseteq>
        dom (transactionStatuses' (update_memory m x status (store_callback' env row pst)))"
    for m x status row
    using update_memory_dom[of "store_callback' env row pst" m x status] by simp
  have b: "dom (transactionStatuses' pst) \<subseteq>
        dom (transactionStatuses' (update_memory m x status
           (create_transaction env row2 (store_callback' env row pst))))"
    for m x status row row2
    using update_memory_dom[of "create_transaction env row2 (store_callback' env row pst)" m x status]
    by simp
  show ?thesis
    unfolding swift_callback_def Let_def
    using a b by (simp split: sum.splits)
qed

text \<open>
  C2, as the code has it. In the relay server no stretch of a handler other than the
  continuation of \<open>/api/pay\<close> leaves a resolved or answered request in the map: the
  first part of \<open>/api/pay\<close> stores a fresh request that is neither, the timer marks a
  request resolved, answers it and deletes its key in one stretch, and the callback
  handler and \<open>/api/status\<close> leave nothing of the kind behind. So, whatever such
  stretches run in whatever order, every key of the map leads to an unresolved request
  that carries the key and whose caller has not been answered. The map of the polling
  server is a cache of statuses instead: its callback handler never removes a key.
\<close>

theorem relay_registry_pending_only:
  assumes "pending_only st" and "\<forall>ev\<in>set evs. \<not> is_PayResumed ev"
  shows "pending_only (relay_run evs st)
     \<and> dom (transactionStatuses' pst)
         \<subseteq> dom (transactionStatuses' (snd (swift_callback sw env pst)))"
  using run_pending_only[OF assms] swift_callback_dom by simp

lemma pending_only_example_held: "pending_only example_held"
  by (simp add: pending_only_def example_held_eq relay_init_def)

theorem relay_registry_pending_only_witness:
  "\<not> is_PayResumed (Webhook example_webhook DbOk)
   \<and> \<not> is_PayResumed (Pay other_body 1712345671234)
   \<and> \<not> is_PayResumed (Timeout ''ACT10042'' swiftwallet)
   \<and> transactionStatuses example_held ''ACT10042'' = Some 0
   \<and> transactionStatuses
        (relay_run [Webhook example_webhook DbOk, Pay other_body 1712345671234] example_held)
        ''ACT10042'' = Some 0
   \<and> \<not> resolved (heap
        (relay_run [Webhook example_webhook DbOk, Pay other_body 1712345671234] example_held) 0)
   \<and> res (heap
        (relay_run [Webhook example_webhook DbOk, Pay other_body 1712345671234] example_held) 0)
        = []
   \<and> transactionStatuses
        (relay_run [Webhook example_webhook DbOk, Pay other_body 1712345671234,
                    Timeout ''ACT10042'' swiftwallet] example_held)
        ''ACT10042'' = None"
proof -
  define st2 where
    "st2 = relay_run [Webhook example_webhook DbOk, Pay other_body 1712345671234] example_held"
  obtain st' where p: "relay_pay other_body 1712345671234 example_held = Inr (1, st')"
    by (simp add: relay_pay_def other_body_def Let_def example_held_request)
  note f = relay_pay_Inr[OF p]
  have "uniqueRef (heap st' 1) = ''PAYP1234''"
    using f by (auto simp: other_body_def other_ref)
  then have "transactionStatuses st' ''ACT10042'' = Some 0"
    using f by (simp add: example_held_facts)
  moreover have "st2 = st'"
    using p by (simp add: st2_def relay_run_def relay_step.simps(3) relay_callback_found
          [OF example_webhook_transform(4,1), of example_held 0]
          Map_get_def example_webhook_transform example_held_facts)
  ultimately have k: "transactionStatuses st2 ''ACT10042'' = Some 0" by simp
  have p: "pending_only st2"
    using relay_registry_pending_only[OF pending_only_example_held,
            of "[Webhook example_webhook DbOk, Pay other_body 1712345671234]"]
    by (simp add: st2_def)
  have u: "\<not> resolved (heap st2 0)" "res (heap st2 0) = []"
    using p k by (auto simp: pending_only_def)
  have "relay_run [Webhook example_webhook DbOk, Pay other_body 1712345671234,
                    Timeout ''ACT10042'' swiftwallet] example_held
          = relay_timeout ''ACT10042'' swiftwallet st2"
    by (simp add: st2_def relay_run_def)
  then have t: "transactionStatuses
        (relay_run [Webhook example_webhook DbOk, Pay other_body 1712345671234,
                    Timeout ''ACT10042'' swiftwallet] example_held) ''ACT10042'' = None"
    using timer_fires(3)[OF k u] by simp
  show ?thesis
    using k u t example_held_facts(1) unfolding st2_def by simp
qed

text \<open>
  The continuation of \<open>/api/pay\<close> is the stretch that does leave an answered request
  in the map: when the initiation fails, the caller gets the failure with status 500 and
  the key stays where the first part put it.
\<close>

lemma failed_initiation_stays_registered:
  "transactionStatuses
     (relay_run [Pay example_body 1712345670042, PayResumed 0 provider_rejects 1712345676900]
        relay_init) ''ACT10042'' = Some 0
   \<and> res (heap
       (relay_run [Pay example_body 1712345670042, PayResumed 0 provider_rejects 1712345676900]
          relay_init) 0)
      = [Json 500 (failed_body (JStr ''Invalid phone number'') ''ACT10042'')]"
proof -
  have s1: "relay_step (Pay example_body 1712345670042) relay_init = example_registered"
    by (simp add: example_registered_def)
  have n: "next_free example_registered = 1"
    unfolding example_registered_def relay_step.simps example_pay by simp
  have g: "gateway (heap example_registered 0) = swiftwallet"
    "uniqueRef (heap example_registered 0) = ''ACT10042''"
    using example_pay_registered by simp_all
  have l: "retry_loop provider_rejects 1 []
     = (Threw (AxiosError ''Request failed with status code 400''
                 (Some (400, JObj [(''error'', JStr ''Invalid phone number'')]))),
        [Post 1, Sleep 2000, Post 2, Sleep 2000, Post 3])"
    unfolding retry_loop_unfold by (simp add: provider_rejects_def)
  have s2: "relay_pay_resume 0 provider_rejects 1712345676900 example_registered
     = snd (res_json 0 (Json 500 (failed_body (JStr ''Invalid phone number'') ''ACT10042''))
              (log_retries [Post 1, Sleep 2000, Post 2, Sleep 2000, Post 3] 0
                 example_registered))"
    unfolding relay_pay_resume_def g l
    by (simp add: failure_message_def jor_def g log_retries_def)
  show ?thesis
    unfolding relay_run_def fold_simps o_apply s1
    by (simp add: n s2 res_json_def log_retries_def example_registered_facts)
qed

section \<open>Facts about the relay server: the timer\<close>





section \<open>Facts about the polling servers\<close>

lemma toUpperCase_polling [simp]:
  "toUpperCase ''QUEUED'' = ''QUEUED''" "toUpperCase ''SUCCESS'' = ''SUCCESS''"
  "toUpperCase ''FAILED'' = ''FAILED''"
  "toLowerCase ''SUCCESS'' = ''success''" "toLowerCase ''FAILED'' = ''failed''"
  "toLowerCase ''initiated'' = ''initiated''"
  by (simp_all add: toUpperCase_def upper_char_def toLowerCase_def lower_char_def)

lemma polling_queued_eq:
  "polling_queued =
     polling_init\<lparr>transactionStatuses' := [''ACT123'' \<mapsto>
        JObj [(''status'', JStr ''QUEUED''),
              (''details'', JStr ''STK Push initiated.''),
              (''checkoutRequestID'', JNull), (''user_id'', JStr ''u1''),
              (''verified'', JBool False)]]\<rparr>"
  by (simp add: polling_queued_def swift_pay_def example_body_user_def swift_accepts_def
        polling_transformSwiftWalletToPayHero_def jor_def Let_def polling_init_def)

lemma polling_webhook_data:
  "polling_transformSwiftWalletCallbackToPayHero polling_webhook
     = payHeroCallback polling_webhook ''Success''"
  "jget polling_webhook ''external_reference'' = JStr ''ACT123''"
  by (simp_all add: polling_transformSwiftWalletCallbackToPayHero_def polling_Status_def
        polling_webhook_def)

lemma parse_payHeroCallback:
  "st \<noteq> [] \<Longrightarrow> parse_status (payHeroCallback sw st) = Inr (JStr (toUpperCase st))"
  "parse_externalRef (payHeroCallback sw st) = jget sw ''external_reference''"
  by (simp_all add: parse_status_def parse_externalRef_def jor_def)

text \<open>
  C2 as stated fails on the polling server: after the success webhook of a queued
  payment, the map still holds the reference, now with status \<open>SUCCESS\<close> and
  \<open>verified\<close>.
\<close>

theorem polling_callback_keeps_resolved_entry:
  "transactionStatuses' (snd (swift_callback polling_webhook store_ok polling_queued)) ''ACT123''
     = Some (JObj [(''status'', JStr ''SUCCESS''),
              (''details'', JStr ''STK Push initiated.''),
              (''checkoutRequestID'', JNull), (''user_id'', JStr ''u1''),
              (''verified'', JBool True)])"
  by (simp add: swift_callback_def polling_webhook_data parse_payHeroCallback Let_def
        polling_queued_eq polling_init_def Map_get_def status_is_def store_callback'_def
        store_ok_def create_transaction_def update_memory_def spread_with_def)

text \<open>
  C6 fails on two paths. In the polling server a success webhook whose reference has
  no user in the map (here: no entry at all) is stored and then the handler returns
  without sending anything. In the relay server a payload with \<open>success: true\<close> and a
  status that is not a string raises in the transformation, before the \<open>try\<close>: nothing
  is stored and nothing is sent.
\<close>

theorem callback_returns_without_reply:
  "swift_callback polling_webhook store_ok polling_init
     = (None, polling_init\<lparr>payment_callbacks' :=
                [callback_row (JStr ''ACT123'') (payHeroCallback polling_webhook ''Success'')
                   (JStr ''SUCCESS'')]\<rparr>)
   \<and> relay_callback (JObj [(''success'', JBool True), (''status'', JNum 5),
                           (''external_reference'', JStr ''ACT10042'')]) DbOk relay_init
       = Inl TypeError"
  by (simp add: swift_callback_def polling_webhook_data parse_payHeroCallback Let_def
        polling_init_def Map_get_def status_is_def store_callback'_def
        store_ok_def relay_callback_def relay_transformSwiftWalletCallbackToPayHero_def
        relay_Status_def)

section \<open>Facts about /api/status\<close>





section \<open>Facts about duplicate deliveries\<close>

lemma spread_with_keeps:
  "name \<noteq> ''status'' \<Longrightarrow> name \<noteq> ''payhero_response'' \<Longrightarrow>
   jget (spread_with (JObj kvs) [(''status'', a), (''payhero_response'', b)]) name
     = jget (JObj kvs) name"
  by (simp add: spread_with_def update_conv')

lemma deposit_success:
  assumes "parse_status data = Inr status" "status_is status ''success''"
    and "parse_externalRef data = JStr k" "k \<noteq> []"
    and "transactionStatuses' st k = Some m" "truthy (jget m ''user_id'')"
  shows "deposit_callback data store_ok st =
     (Some (SendStatus 200),
      st\<lparr>payment_callbacks' := payment_callbacks' st @ [callback_row (JStr k) data status],
         transactions := transactions st @
           [transaction_row (jget m ''user_id'')
              (jor (jget (jget data ''response'') ''Amount'') (JNum 5)) (JStr k)]\<rparr>)"
  using assms
  by (simp add: deposit_callback_def Let_def store_callback'_def store_ok_def Map_get_def
        create_transaction_def)

lemma match_kept:
  "(jget (if jget row ''external_reference'' = JStr k
          then spread_with row [(''status'', a), (''payhero_response'', b)] else row)
      ''external_reference'' = JStr k)
   = (jget row ''external_reference'' = JStr k)"
  by (cases row) (simp_all add: spread_with_keeps)

lemma confirm_activation_one:
  assumes "filter (\<lambda>row. jget row ''external_reference'' = JStr k) (activation_payments st)
             = [JObj kvs]"
  shows "\<exists>st1 kvs1. confirm_activation store_ok (JStr k) data st = (Some (JObj kvs1), st1)
     \<and> jget (JObj kvs1) ''user_id'' = jget (JObj kvs) ''user_id''
     \<and> jget (JObj kvs1) ''amount'' = jget (JObj kvs) ''amount''
     \<and> filter (\<lambda>row. jget row ''external_reference'' = JStr k) (activation_payments st1)
          = [JObj kvs1]
     \<and> payment_callbacks' st1 = payment_callbacks' st \<and> transactions st1 = transactions st
     \<and> transactionStatuses' st1 = transactionStatuses' st"
proof -
  let ?P = "\<lambda>row. jget row ''external_reference'' = JStr k"
  let ?f = "\<lambda>row. if jget row ''external_reference'' = JStr k
                   then spread_with row [(''status'', JStr ''SUCCESS''), (''payhero_response'', data)]
                   else row"
  have "filter ?P (map ?f (activation_payments st)) = map ?f (filter (?P \<circ> ?f) (activation_payments st))"
    by (simp add: filter_map)
  also have "?P \<circ> ?f = ?P" using match_kept by (auto simp: fun_eq_iff)
  finally have fm: "filter ?P (map ?f (activation_payments st)) = [?f (JObj kvs)]"
    using assms by simp
  have "JObj kvs \<in> set (filter ?P (activation_payments st))"
    using assms by simp
  then have m: "jget (JObj kvs) ''external_reference'' = JStr k"
    by simp
  obtain kvs1 where k1: "?f (JObj kvs) = JObj kvs1"
    using m by (simp add: spread_with_def)
  have k1': "spread_with (JObj kvs) [(''status'', JStr ''SUCCESS''), (''payhero_response'', data)]
               = JObj kvs1"
    using k1 m by simp
  have keep: "jget (JObj kvs1) ''user_id'' = jget (JObj kvs) ''user_id''"
             "jget (JObj kvs1) ''amount'' = jget (JObj kvs) ''amount''"
    unfolding k1'[symmetric] by (rule spread_with_keeps; simp)+
  show ?thesis
    using fm k1 keep
    by (simp add: confirm_activation_def store_ok_def Let_def)
qed

lemma payhero_success:
  assumes "parse_status data = Inr status" "status_is status ''success''"
    and "parse_externalRef data = JStr k" "k \<noteq> []"
    and "filter (\<lambda>row. jget row ''external_reference'' = JStr k) (activation_payments st)
             = [JObj kvs]"
  shows "\<exists>st1 kvs1. payhero_callback data store_ok st = (Some (SendStatus 200), st1)
     \<and> payment_callbacks' st1 = payment_callbacks' st @ [callback_row (JStr k) data status]
     \<and> transactions st1 = transactions st @
           [transaction_row (jget (JObj kvs) ''user_id'')
              (jor (jget (JObj kvs) ''amount'') (JNum 500)) (JStr k)]
     \<and> filter (\<lambda>row. jget row ''external_reference'' = JStr k) (activation_payments st1)
          = [JObj kvs1]
     \<and> jget (JObj kvs1) ''user_id'' = jget (JObj kvs) ''user_id''
     \<and> jget (JObj kvs1) ''amount'' = jget (JObj kvs) ''amount''"
proof -
  define st0 where
    "st0 = st\<lparr>payment_callbacks' := payment_callbacks' st @ [callback_row (JStr k) data status]\<rparr>"
  have a0: "filter (\<lambda>row. jget row ''external_reference'' = JStr k) (activation_payments st0)
             = [JObj kvs]"
    using assms(5) by (simp add: st0_def)
  obtain st1 kvs1 where c: "confirm_activation store_ok (JStr k) data st0 = (Some (JObj kvs1), st1)"
    and k: "jget (JObj kvs1) ''user_id'' = jget (JObj kvs) ''user_id''"
      "jget (JObj kvs1) ''amount'' = jget (JObj kvs) ''amount''"
    and f: "filter (\<lambda>row. jget row ''external_reference'' = JStr k) (activation_payments st1)
          = [JObj kvs1]"
    and r: "payment_callbacks' st1 = payment_callbacks' st0" "transactions st1 = transactions st0"
    using confirm_activation_one[OF a0, of data] by blast
  have "payhero_callback data store_ok st =
      (Some (SendStatus 200),
       create_transaction store_ok
         (transaction_row (jget (JObj kvs1) ''user_id'')
            (jor (jget (JObj kvs1) ''amount'') (JNum 500)) (JStr k)) st1)"
    using assms(1-4) c
    by (simp add: payhero_callback_def Let_def st0_def[symmetric] store_ok_def)
  then show ?thesis
    using k f r by (simp add: create_transaction_def store_ok_def st0_def)
qed

text \<open>
  C8, as the code has it. No callback handler looks for an earlier delivery. When the
  store accepts every call, delivering the same success webhook twice leaves two rows
  in \<open>payment_callbacks\<close> and two equal rows in the ledger: in the deposits server for
  the user of the map entry, in the activation server for the user of the one
  activation payment of the reference.
\<close>

theorem duplicate_delivery_two_ledger_rows:
  "(parse_status data = Inr status \<and> status_is status ''success''
      \<and> parse_externalRef data = JStr k \<and> k \<noteq> []
      \<and> transactionStatuses' st k = Some m \<and> truthy (jget m ''user_id'')
    \<longrightarrow> payment_callbacks'
          (snd (deposit_callback data store_ok (snd (deposit_callback data store_ok st))))
          = payment_callbacks' st
            @ [callback_row (JStr k) data status, callback_row (JStr k) data status]
        \<and> transactions
          (snd (deposit_callback data store_ok (snd (deposit_callback data store_ok st))))
          = transactions st
            @ [transaction_row (jget m ''user_id'')
                 (jor (jget (jget data ''response'') ''Amount'') (JNum 5)) (JStr k),
               transaction_row (jget m ''user_id'')
                 (jor (jget (jget data ''response'') ''Amount'') (JNum 5)) (JStr k)])
   \<and> (parse_status data = Inr status \<and> status_is status ''success''
      \<and> parse_externalRef data = JStr k \<and> k \<noteq> []
      \<and> filter (\<lambda>row. jget row ''external_reference'' = JStr k) (activation_payments st)
           = [JObj kvs]
    \<longrightarrow> payment_callbacks'
          (snd (payhero_callback data store_ok (snd (payhero_callback data store_ok st))))
          = payment_callbacks' st
            @ [callback_row (JStr k) data status, callback_row (JStr k) data status]
        \<and> transactions
          (snd (payhero_callback data store_ok (snd (payhero_callback data store_ok st))))
          = transactions st
            @ [transaction_row (jget (JObj kvs) ''user_id'')
                 (jor (jget (JObj kvs) ''amount'') (JNum 500)) (JStr k),
               transaction_row (jget (JObj kvs) ''user_id'')
                 (jor (jget (JObj kvs) ''amount'') (JNum 500)) (JStr k)])"
proof (intro conjI impI)
  assume a: "parse_status data = Inr status \<and> status_is status ''success''
      \<and> parse_externalRef data = JStr k \<and> k \<noteq> []
      \<and> transactionStatuses' st k = Some m \<and> truthy (jget m ''user_id'')"
  define st1 where "st1 = snd (deposit_callback data store_ok st)"
  have s1: "st1 = st\<lparr>payment_callbacks' := payment_callbacks' st @ [callback_row (JStr k) data status],
         transactions := transactions st @
           [transaction_row (jget m ''user_id'')
              (jor (jget (jget data ''response'') ''Amount'') (JNum 5)) (JStr k)]\<rparr>"
    using deposit_success[of data status k st m] a by (simp add: st1_def)
  have m1: "transactionStatuses' st1 k = Some m" using a s1 by simp
  have s2: "snd (deposit_callback data store_ok st1) =
        st1\<lparr>payment_callbacks' := payment_callbacks' st1 @ [callback_row (JStr k) data status],
         transactions := transactions st1 @
           [transaction_row (jget m ''user_id'')
              (jor (jget (jget data ''response'') ''Amount'') (JNum 5)) (JStr k)]\<rparr>"
    using deposit_success[of data status k st1 m] a m1 by simp
  show "payment_callbacks'
          (snd (deposit_callback data store_ok (snd (deposit_callback data store_ok st))))
          = payment_callbacks' st
            @ [callback_row (JStr k) data status, callback_row (JStr k) data status]"
    unfolding st1_def[symmetric] s2 by (simp add: s1)
  show "transactions
          (snd (deposit_callback data store_ok (snd (deposit_callback data store_ok st))))
          = transactions st
            @ [transaction_row (jget m ''user_id'')
                 (jor (jget (jget data ''response'') ''Amount'') (JNum 5)) (JStr k),
               transaction_row (jget m ''user_id'')
                 (jor (jget (jget data ''response'') ''Amount'') (JNum 5)) (JStr k)]"
    unfolding st1_def[symmetric] s2 by (simp add: s1)
next
  assume a: "parse_status data = Inr status \<and> status_is status ''success''
      \<and> parse_externalRef data = JStr k \<and> k \<noteq> []
      \<and> filter (\<lambda>row. jget row ''external_reference'' = JStr k) (activation_payments st)
           = [JObj kvs]"
  obtain st1 kvs1 where s1: "payhero_callback data store_ok st = (Some (SendStatus 200), st1)"
    "payment_callbacks' st1 = payment_callbacks' st @ [callback_row (JStr k) data status]"
    "transactions st1 = transactions st @
           [transaction_row (jget (JObj kvs) ''user_id'')
              (jor (jget (JObj kvs) ''amount'') (JNum 500)) (JStr k)]"
    "filter (\<lambda>row. jget row ''external_reference'' = JStr k) (activation_payments st1)
          = [JObj kvs1]"
    "jget (JObj kvs1) ''user_id'' = jget (JObj kvs) ''user_id''"
    "jget (JObj kvs1) ''amount'' = jget (JObj kvs) ''amount''"
    using payhero_success[of data status k st kvs] a by blast
  obtain st2 where s2: "payhero_callback data store_ok st1 = (Some (SendStatus 200), st2)"
    "payment_callbacks' st2 = payment_callbacks' st1 @ [callback_row (JStr k) data status]"
    "transactions st2 = transactions st1 @
           [transaction_row (jget (JObj kvs1) ''user_id'')
              (jor (jget (JObj kvs1) ''amount'') (JNum 500)) (JStr k)]"
    using payhero_success[of data status k st1 kvs1] a s1(4) by blast
  show "payment_callbacks'
          (snd (payhero_callback data store_ok (snd (payhero_callback data store_ok st))))
          = payment_callbacks' st
            @ [callback_row (JStr k) data status, callback_row (JStr k) data status]"
    using s1 s2 by simp
  show "transactions
          (snd (payhero_callback data store_ok (snd (payhero_callback data store_ok st))))
          = transactions st
            @ [transaction_row (jget (JObj kvs) ''user_id'')
                 (jor (jget (JObj kvs) ''amount'') (JNum 500)) (JStr k),
               transaction_row (jget (JObj kvs) ''user_id'')
                 (jor (jget (JObj kvs) ''amount'') (JNum 500)) (JStr k)]"
    using s1 s2 by simp
qed

lemma payhero_webhook_parse:
  "parse_status payhero_webhook = Inr (JStr ''SUCCESS'')"
  "parse_externalRef payhero_webhook = JStr ''ACT123''"
  "status_is (JStr ''SUCCESS'') ''success''"
  "jget (jget payhero_webhook ''response'') ''Amount'' = JNum 500"
  by (simp_all add: parse_status_def parse_externalRef_def payhero_webhook_def jor_def
        status_is_def)

lemma polling_queued_entry:
  "transactionStatuses' polling_queued ''ACT123'' =
     Some (JObj [(''status'', JStr ''QUEUED''),
              (''details'', JStr ''STK Push initiated.''),
              (''checkoutRequestID'', JNull), (''user_id'', JStr ''u1''),
              (''verified'', JBool False)])"
  "payment_callbacks' polling_queued = []" "transactions polling_queued = []"
  by (simp_all add: polling_queued_eq polling_init_def)

lemma activation_pending_rows:
  "filter (\<lambda>row. jget row ''external_reference'' = JStr ''ACT123'')
      (activation_payments activation_pending)
     = [JObj [(''external_reference'', JStr ''ACT123''), (''user_id'', JStr ''u1''),
              (''amount'', JNum 500), (''status'', JStr ''PENDING'')]]"
  "payment_callbacks' activation_pending = []" "transactions activation_pending = []"
  by (simp_all add: activation_pending_def polling_init_def)

theorem duplicate_delivery_two_ledger_rows_witness:
  "parse_status payhero_webhook = Inr (JStr ''SUCCESS'')
   \<and> status_is (JStr ''SUCCESS'') ''success''
   \<and> parse_externalRef payhero_webhook = JStr ''ACT123''
   \<and> payment_callbacks'
        (snd (deposit_callback payhero_webhook store_ok
               (snd (deposit_callback payhero_webhook store_ok polling_queued))))
        = [callback_row (JStr ''ACT123'') payhero_webhook (JStr ''SUCCESS''),
           callback_row (JStr ''ACT123'') payhero_webhook (JStr ''SUCCESS'')]
   \<and> transactions
        (snd (payhero_callback payhero_webhook store_ok
               (snd (payhero_callback payhero_webhook store_ok activation_pending))))
        = [transaction_row (JStr ''u1'') (JNum 500) (JStr ''ACT123''),
           transaction_row (JStr ''u1'') (JNum 500) (JStr ''ACT123'')]"
  using duplicate_delivery_two_ledger_rows[of payhero_webhook "JStr ''SUCCESS''" "''ACT123''"
          polling_queued
          "JObj [(''status'', JStr ''QUEUED''),
              (''details'', JStr ''STK Push initiated.''),
              (''checkoutRequestID'', JNull), (''user_id'', JStr ''u1''),
              (''verified'', JBool False)]"]
    duplicate_delivery_two_ledger_rows[of payhero_webhook "JStr ''SUCCESS''" "''ACT123''"
          activation_pending _
          "[(''external_reference'', JStr ''ACT123''), (''user_id'', JStr ''u1''),
              (''amount'', JNum 500), (''status'', JStr ''PENDING'')]"]
  by (simp add: payhero_webhook_parse polling_queued_entry activation_pending_rows jor_def)

text \<open>
  C8 as stated fails: the payment of user \<open>u1\<close>, the same success webhook twice, two
  ledger rows, in either PayHero server.
\<close>

theorem duplicate_success_two_ledger_rows:
  "transactions
     (snd (deposit_callback payhero_webhook store_ok
            (snd (deposit_callback payhero_webhook store_ok polling_queued))))
     = [transaction_row (JStr ''u1'') (JNum 500) (JStr ''ACT123''),
        transaction_row (JStr ''u1'') (JNum 500) (JStr ''ACT123'')]
   \<and> transactions
     (snd (payhero_callback payhero_webhook store_ok
            (snd (payhero_callback payhero_webhook store_ok activation_pending))))
     = [transaction_row (JStr ''u1'') (JNum 500) (JStr ''ACT123''),
        transaction_row (JStr ''u1'') (JNum 500) (JStr ''ACT123'')]"
proof -
  obtain st1 kvs1 where s1:
    "payhero_callback payhero_webhook store_ok activation_pending = (Some (SendStatus 200), st1)"
    "transactions st1 = [transaction_row (JStr ''u1'') (JNum 500) (JStr ''ACT123'')]"
    "filter (\<lambda>row. jget row ''external_reference'' = JStr ''ACT123'') (activation_payments st1)
          = [JObj kvs1]"
    "jget (JObj kvs1) ''user_id'' = JStr ''u1''"
    "jget (JObj kvs1) ''amount'' = JNum 500"
    using payhero_success[OF payhero_webhook_parse(1,3,2) _ activation_pending_rows(1)]
    by (auto simp: activation_pending_rows jor_def)
  obtain st2 where s2:
    "payhero_callback payhero_webhook store_ok st1 = (Some (SendStatus 200), st2)"
    "transactions st2 = transactions st1 @
           [transaction_row (jget (JObj kvs1) ''user_id'')
              (jor (jget (JObj kvs1) ''amount'') (JNum 500)) (JStr ''ACT123'')]"
    using payhero_success[OF payhero_webhook_parse(1,3,2) _ s1(3)] by auto
  have d1: "snd (deposit_callback payhero_webhook store_ok polling_queued) =
      polling_queued\<lparr>payment_callbacks' :=
           [callback_row (JStr ''ACT123'') payhero_webhook (JStr ''SUCCESS'')],
         transactions := [transaction_row (JStr ''u1'') (JNum 500) (JStr ''ACT123'')]\<rparr>"
    using deposit_success[OF payhero_webhook_parse(1,3,2) _ polling_queued_entry(1)]
    by (simp add: polling_queued_entry payhero_webhook_parse jor_def)
  have d2: "transactions (snd (deposit_callback payhero_webhook store_ok
       (polling_queued\<lparr>payment_callbacks' :=
           [callback_row (JStr ''ACT123'') payhero_webhook (JStr ''SUCCESS'')],
         transactions := [transaction_row (JStr ''u1'') (JNum 500) (JStr ''ACT123'')]\<rparr>)))
     = [transaction_row (JStr ''u1'') (JNum 500) (JStr ''ACT123''),
        transaction_row (JStr ''u1'') (JNum 500) (JStr ''ACT123'')]"
    using deposit_success[OF payhero_webhook_parse(1,3,2), of
       "polling_queued\<lparr>payment_callbacks' :=
           [callback_row (JStr ''ACT123'') payhero_webhook (JStr ''SUCCESS'')],
         transactions := [transaction_row (JStr ''u1'') (JNum 500) (JStr ''ACT123'')]\<rparr>"
       "JObj [(''status'', JStr ''QUEUED''),
              (''details'', JStr ''STK Push initiated.''),
              (''checkoutRequestID'', JNull), (''user_id'', JStr ''u1''),
              (''verified'', JBool False)]"]
    by (simp add: polling_queued_entry payhero_webhook_parse jor_def)
  show ?thesis
    using s1 s2 d2 unfolding d1 by (simp add: jor_def)
qed

end
